theory Spec2Isabelle
  imports Main "HOL-Library.AList"
begin

section \<open>Python values, errors and function objects\<close>

text \<open>
  The package \<^verbatim>\<open>arclog.sd\<close> reduces arbitrary Python objects to JSON-like values.
  An exception raised by the code is the left summand of a result; \<open>NonException\<close>
  stands for the exceptions that derive from \<^verbatim>\<open>BaseException\<close> but not from
  \<^verbatim>\<open>Exception\<close> (\<^verbatim>\<open>KeyboardInterrupt\<close>, \<^verbatim>\<open>SystemExit\<close>), which
  \<^verbatim>\<open>except Exception\<close> lets through. The two errors the package raises itself
  carry their message (empty for a bare \<^verbatim>\<open>raise NotImplementedError\<close>); the errors of
  library calls are kept by class.
\<close>

datatype pyerr =
    NotImplementedError string
  | MissingAnnotationError string
  | TypeError
  | ValueError
  | AttributeError
  | KeyError
  | OtherException string
  | NonException string

type_synonym 'a result = "pyerr + 'a"

fun is_Exception :: "pyerr \<Rightarrow> bool" where
  "is_Exception (NonException _) = False"
| "is_Exception _ = True"

definition bind_res :: "'a result \<Rightarrow> ('a \<Rightarrow> 'b result) \<Rightarrow> 'b result" where
  "bind_res r f = (case r of Inl e \<Rightarrow> Inl e | Inr x \<Rightarrow> f x)"

fun mapM_res :: "('a \<Rightarrow> 'b result) \<Rightarrow> 'a list \<Rightarrow> 'b list result" where
  "mapM_res f [] = Inr []"
| "mapM_res f (x # xs) =
     bind_res (f x) (\<lambda>y. bind_res (mapM_res f xs) (\<lambda>ys. Inr (y # ys)))"

text \<open>
  The exponent of a \<^verbatim>\<open>decimal.Decimal\<close> is an integer, or one of the letters
  \<^verbatim>\<open>'n'\<close> (quiet NaN), \<^verbatim>\<open>'N'\<close> (signalling NaN) and \<^verbatim>\<open>'F'\<close> (infinity).
\<close>

datatype decexp = ExpInt int | ExpSpecial char

text \<open>
  An object carries what the code can ask of it: the resolution order of its class
  (\<open>mro\<close>: the names of its class and of every class it is an instance of, most
  specific first, \<^verbatim>\<open>object\<close> last, abstract base classes included where
  \<^verbatim>\<open>functools\<close> places them), its attributes (the entry of a method holds what
  calling it returns), what \<^verbatim>\<open>str\<close> and \<^verbatim>\<open>repr\<close> do on it, and the data of
  the standard types the converters read.
\<close>

datatype pyobj =
  PyObj (mro: "string list") (attrs: "(string \<times> pyobj) list")
        (str_conv: "pyerr + string") (repr_conv: "pyerr + string") (payload: pydata)
and pydata =
    Opaque
  | NoneData
  | IntData int
  | Items "pyobj list"
  | Pairs "(pyobj \<times> pyobj) list"
  | BytesData "nat list"
  | ClassData string "string list"
  | DecimalData bool "nat list" decexp
  | ExcData string
  | TracebackData "string list"

text \<open>
  A Python \<^verbatim>\<open>float\<close> made by the code is kept symbolically: the double nearest to
  a signed decimal, a NaN or an infinity.
\<close>

datatype pyfloat = FloatOfDecimal bool "nat list" int | FloatNaN | FloatInf bool

text \<open>
  What a handler returns: an object it was given (\<open>RObj\<close>: the argument itself or
  something read from it), or a fresh value of a builtin type.
\<close>

datatype pyres =
    RObj pyobj
  | RBool bool
  | RInt int
  | RFloat pyfloat
  | RStr string
  | RList "pyres list"
  | RTuple "pyres list"
  | RDict "(pyres \<times> pyres) list"

fun truthy :: "pyres \<Rightarrow> bool" where
  "truthy (RBool b) = b"
| "truthy (RInt n) = (n \<noteq> 0)"
| "truthy (RFloat f) = (case f of FloatOfDecimal s ds e \<Rightarrow> list_ex (\<lambda>d. d \<noteq> 0) ds | _ \<Rightarrow> True)"
| "truthy (RStr s) = (s \<noteq> [])"
| "truthy (RList xs) = (xs \<noteq> [])"
| "truthy (RTuple xs) = (xs \<noteq> [])"
| "truthy (RDict kvs) = (kvs \<noteq> [])"
| "truthy (RObj obj) =
     (case payload obj of
        NoneData \<Rightarrow> False
      | IntData n \<Rightarrow> n \<noteq> 0
      | Items xs \<Rightarrow> xs \<noteq> []
      | Pairs kvs \<Rightarrow> kvs \<noteq> []
      | BytesData bs \<Rightarrow> bs \<noteq> []
      | _ \<Rightarrow> True)"

text \<open>
  The annotation of a parameter: a class (\<^verbatim>\<open>typing.Any\<close> is one), a union of classes,
  or anything else (a parameterised generic, a type variable).
\<close>

datatype annot = AClass string | AUnion "string list" | AOther string

text \<open>
  A function object: its identity (two function objects are the same object exactly when
  they are equal, identity included), its \<^verbatim>\<open>__name__\<close>, its type hints and what
  calling it on one argument does.
\<close>

record pyfunc =
  fn_id :: nat
  fn_name :: string
  hints :: "(string \<times> annot) list"
  body :: "pyobj \<Rightarrow> pyres result"

type_synonym typemap = "(pyfunc \<times> pyfunc) list"

subsection \<open>Builtin operations\<close>

definition isinstance :: "pyobj \<Rightarrow> string list \<Rightarrow> bool" where
  "isinstance obj classes = list_ex (\<lambda>c. c \<in> set (mro obj)) classes"

definition hasattr :: "pyobj \<Rightarrow> string \<Rightarrow> bool" where
  "hasattr obj name = (map_of (attrs obj) name \<noteq> None)"

definition getattr :: "pyobj \<Rightarrow> string \<Rightarrow> pyobj result" where
  "getattr obj name =
     (case map_of (attrs obj) name of None \<Rightarrow> Inl AttributeError | Some v \<Rightarrow> Inr v)"

definition get_res :: "pyobj \<Rightarrow> string \<Rightarrow> pyres result" where
  "get_res obj name = bind_res (getattr obj name) (\<lambda>v. Inr (RObj v))"

definition class_name :: "pyobj \<Rightarrow> string" where
  "class_name obj = (case mro obj of [] \<Rightarrow> [] | c # _ \<Rightarrow> c)"

definition py_str :: "pyobj \<Rightarrow> string result" where
  "py_str obj = str_conv obj"

definition py_repr :: "pyobj \<Rightarrow> string result" where
  "py_repr obj = repr_conv obj"

definition py_iter :: "pyobj \<Rightarrow> pyobj list result" where
  "py_iter obj =
     (case payload obj of
        Items xs \<Rightarrow> Inr xs
      | Pairs kvs \<Rightarrow> Inr (map fst kvs)
      | _ \<Rightarrow> Inl TypeError)"

definition py_list :: "pyobj \<Rightarrow> pyres result" where
  "py_list obj =
     (case payload obj of
        BytesData bs \<Rightarrow> Inr (RList (map (\<lambda>b. RInt (int b)) bs))
      | _ \<Rightarrow> bind_res (py_iter obj) (\<lambda>xs. Inr (RList (map RObj xs))))"

definition py_dict :: "pyobj \<Rightarrow> pyres result" where
  "py_dict obj =
     (case payload obj of
        Pairs kvs \<Rightarrow> Inr (RDict (map (\<lambda>(k, v). (RObj k, RObj v)) kvs))
      | _ \<Rightarrow> Inl TypeError)"

text \<open>\<^verbatim>\<open>str.strip()\<close>: the ASCII characters for which \<^verbatim>\<open>str.isspace\<close> holds.\<close>

definition is_space :: "char \<Rightarrow> bool" where
  "is_space c = (let n = (of_char c :: nat) in (9 \<le> n \<and> n \<le> 13) \<or> (28 \<le> n \<and> n \<le> 32))"

definition py_strip :: "string \<Rightarrow> string" where
  "py_strip s = rev (dropWhile is_space (rev (dropWhile is_space s)))"

definition startswith :: "string \<Rightarrow> string \<Rightarrow> bool" where
  "startswith s p = (take (length p) s = p)"

function str_replace :: "string \<Rightarrow> string \<Rightarrow> string \<Rightarrow> string" where
  "str_replace old new [] = (if old = [] then new else [])"
| "str_replace old new (c # cs) =
     (if old = [] then new @ c # str_replace old new cs
      else if take (length old) (c # cs) = old
           then new @ str_replace old new (drop (length old) (c # cs))
           else c # str_replace old new cs)"
  by pat_completeness auto
termination
  by (relation "measure (\<lambda>(old, new, s). length s)") auto

section \<open>The dispatch engine (\<^verbatim>\<open>arclog/sd/__init__.py\<close>)\<close>

definition unknown_default :: "pyobj \<Rightarrow> string result" where
  "unknown_default obj =
     (case py_str obj of
        Inr s \<Rightarrow> Inr s
      | Inl e \<Rightarrow>
          if \<not> is_Exception e then Inl e
          else (case py_repr obj of
                  Inr r \<Rightarrow> Inr r
                | Inl e' \<Rightarrow>
                    if \<not> is_Exception e' then Inl e'
                    else Inr ''__failed_to_encode__''))"

text \<open>
  \<^verbatim>\<open>functools.singledispatch\<close>: the registry maps a class to an implementation;
  \<^verbatim>\<open>object\<close> is bound to the decorated function itself (\<open>Generic\<close>). A call
  dispatches on the class of its argument: the first class of the resolution order that
  has an entry. \<^verbatim>\<open>register\<close> takes a class or a union of classes and raises
  \<^verbatim>\<open>TypeError\<close> on anything else.
\<close>

datatype impl = Generic | Registered pyfunc

type_synonym registry = "(string \<times> impl) list"

definition initial_registry :: registry where
  "initial_registry = [(''object'', Generic)]"

definition register :: "annot \<Rightarrow> pyfunc \<Rightarrow> registry \<Rightarrow> registry result" where
  "register typ func reg =
     (case typ of
        AClass c \<Rightarrow> Inr (AList.update c (Registered func) reg)
      | AUnion cs \<Rightarrow> Inr (fold (\<lambda>c r. AList.update c (Registered func) r) cs reg)
      | AOther _ \<Rightarrow> Inl TypeError)"

fun find_impl :: "string list \<Rightarrow> registry \<Rightarrow> impl option" where
  "find_impl [] reg = None"
| "find_impl (t # ts) reg =
     (case map_of reg t of Some i \<Rightarrow> Some i | None \<Rightarrow> find_impl ts reg)"

text \<open>The loop of the generic implementation over \<^verbatim>\<open>TYPEMAP.items()\<close>.\<close>

fun scan_typemap :: "typemap \<Rightarrow> pyobj \<Rightarrow> pyres result option" where
  "scan_typemap [] obj = None"
| "scan_typemap ((k, v) # tm) obj =
     (case body k obj of
        Inl e \<Rightarrow> Some (Inl e)
      | Inr b \<Rightarrow> if truthy b then Some (body v obj) else scan_typemap tm obj)"

definition serialize_generic :: "typemap \<Rightarrow> pyobj \<Rightarrow> bool \<Rightarrow> pyres result" where
  "serialize_generic tm obj raise =
     (case scan_typemap tm obj of
        Some r \<Rightarrow> r
      | None \<Rightarrow>
          if raise then Inl (NotImplementedError [])
          else bind_res (unknown_default obj) (\<lambda>s. Inr (RStr s)))"

definition serialize :: "registry \<Rightarrow> typemap \<Rightarrow> pyobj \<Rightarrow> bool \<Rightarrow> pyres result" where
  "serialize reg tm obj raise =
     (case find_impl (mro obj) reg of
        None \<Rightarrow> Inl TypeError
      | Some Generic \<Rightarrow> serialize_generic tm obj raise
      | Some (Registered v) \<Rightarrow> body v obj)"

subsection \<open>Validation and registration\<close>

definition missing_annotation_msg :: "pyfunc \<Rightarrow> string" where
  "missing_annotation_msg func =
     ''The function '' @ [CHR 0x27] @ fn_name func @ [CHR 0x27] @
     '' must have an '' @ [CHR 0x27] @ ''obj'' @ [CHR 0x27] @ '' parameter.''"

text \<open>
  \<^verbatim>\<open>_validation_cache\<close> is a \<^verbatim>\<open>defaultdict(bool)\<close> keyed by the function
  object.
\<close>

type_synonym cache = "pyfunc \<Rightarrow> bool"

definition validate_type_handler :: "pyfunc \<Rightarrow> cache \<Rightarrow> cache result" where
  "validate_type_handler fn c =
     (if map_of (hints fn) ''obj'' = None then Inl (MissingAnnotationError (missing_annotation_msg fn))
      else Inr (c(fn := True)))"

fun validate_typemap :: "typemap \<Rightarrow> cache \<Rightarrow> cache result" where
  "validate_typemap [] c = Inr c"
| "validate_typemap ((k, v) # tm) c =
     bind_res (if c v then Inr c else validate_type_handler v c) (\<lambda>c1.
     bind_res (if c1 k then Inr c1 else validate_type_handler k c1) (\<lambda>c2.
     validate_typemap tm c2))"

record sd_state =
  validation_cache :: cache
  registry :: registry
  excepted_handlers :: typemap

text \<open>
  A dictionary keyed by objects is an association list in insertion order;
  \<open>AList.update\<close> is the assignment \<^verbatim>\<open>d[k] = v\<close>.
\<close>

fun register_all :: "typemap \<Rightarrow> registry \<Rightarrow> typemap \<Rightarrow> (registry \<times> typemap) result" where
  "register_all [] reg exc = Inr (reg, exc)"
| "register_all ((k, v) # tm) reg exc =
     (case map_of (hints v) ''obj'' of
        None \<Rightarrow> Inl KeyError
      | Some typ \<Rightarrow>
          (case register typ v reg of
             Inr reg' \<Rightarrow> register_all tm reg' exc
           | Inl TypeError \<Rightarrow> register_all tm reg (AList.update k v exc)
           | Inl e \<Rightarrow> Inl e))"

definition register_singledispatch :: "typemap \<Rightarrow> sd_state \<Rightarrow> sd_state result" where
  "register_singledispatch tm st =
     bind_res (validate_typemap tm (validation_cache st)) (\<lambda>c.
     bind_res (register_all tm (registry st) (excepted_handlers st)) (\<lambda>(reg, exc).
     Inr \<lparr>validation_cache = c, registry = reg, excepted_handlers = exc\<rparr>))"

definition initial_state :: sd_state where
  "initial_state = \<lparr>validation_cache = (\<lambda>_. False), registry = initial_registry,
                    excepted_handlers = []\<rparr>"

section \<open>The catalog of handlers (\<^verbatim>\<open>arclog/sd/serializers.py\<close>)\<close>

text \<open>
  Every handler is declared as \<^verbatim>\<open>def f(obj: T, *args: Any, **kwargs: Any)\<close>; the
  annotation of the result, which the package never reads, is left out of \<open>hints\<close>.
  The functions of the module are numbered in the order of their definitions.
\<close>

definition py_def :: "nat \<Rightarrow> string \<Rightarrow> annot \<Rightarrow> (pyobj \<Rightarrow> pyres result) \<Rightarrow> pyfunc" where
  "py_def i name typ f =
     \<lparr>fn_id = i, fn_name = name,
      hints = [(''obj'', typ), (''args'', AClass ''Any''), (''kwargs'', AClass ''Any'')],
      body = f\<rparr>"

subsection \<open>Library functions the converters call\<close>

text \<open>\<open>obj is C\<close> and \<open>issubclass(obj, C)\<close> for an object that is itself a class.\<close>

definition is_class :: "pyobj \<Rightarrow> string \<Rightarrow> bool" where
  "is_class obj c = (case payload obj of ClassData name _ \<Rightarrow> name = c | _ \<Rightarrow> False)"

definition py_issubclass :: "pyobj \<Rightarrow> string \<Rightarrow> bool result" where
  "py_issubclass obj c =
     (case payload obj of ClassData _ bases \<Rightarrow> Inr (c \<in> set bases) | _ \<Rightarrow> Inl TypeError)"

definition b64_alphabet :: string where
  "b64_alphabet = ''ABCDEFGHIJKLMNOPQRSTUVWXYZabcdefghijklmnopqrstuvwxyz0123456789-_''"

definition b64_char :: "nat \<Rightarrow> char" where
  "b64_char n = b64_alphabet ! (n mod 64)"

fun urlsafe_b64encode :: "nat list \<Rightarrow> string" where
  "urlsafe_b64encode [] = []"
| "urlsafe_b64encode [a] =
     [b64_char (a div 4), b64_char ((a mod 4) * 16), CHR ''='', CHR ''='']"
| "urlsafe_b64encode [a, b] =
     [b64_char (a div 4), b64_char ((a mod 4) * 16 + b div 16), b64_char ((b mod 16) * 4),
      CHR ''='']"
| "urlsafe_b64encode (a # b # c # rest) =
     [b64_char (a div 4), b64_char ((a mod 4) * 16 + b div 16),
      b64_char ((b mod 16) * 4 + c div 64), b64_char (c mod 64)] @ urlsafe_b64encode rest"

text \<open>
  \<^verbatim>\<open>traceback.format_exception\<close> and \<^verbatim>\<open>traceback.format_tb\<close> of the standard
  library, for an exception without cause, context or notes that is neither a syntax
  error nor an exception group: the header and the frames when the traceback has frames,
  then the line of the exception, which names the class with its module unless the module
  is \<^verbatim>\<open>builtins\<close> or \<^verbatim>\<open>__main__\<close>, and drops the colon when the message is empty.
  The formatted frames are the data of the traceback object.
\<close>

definition exc_module :: "pyobj \<Rightarrow> string" where
  "exc_module exc = (case payload exc of ExcData m \<Rightarrow> m | _ \<Rightarrow> ''builtins'')"

definition format_tb :: "pyobj \<Rightarrow> string list" where
  "format_tb tb = (case payload tb of TracebackData frames \<Rightarrow> frames | _ \<Rightarrow> [])"

definition format_exception :: "pyobj \<Rightarrow> pyobj \<Rightarrow> string list" where
  "format_exception exc tb =
     (let stype = (if exc_module exc = ''__main__'' \<or> exc_module exc = ''builtins''
                   then class_name exc else exc_module exc @ ''.'' @ class_name exc);
          valuestr = (case py_str exc of Inr s \<Rightarrow> s | Inl _ \<Rightarrow> ''<exception str() failed>'');
          final = (if valuestr = [] then stype @ ''\<newline>''
                   else stype @ '': '' @ valuestr @ ''\<newline>'')
      in (if format_tb tb = [] then []
          else (''Traceback (most recent call last):'' @ ''\<newline>'') # format_tb tb) @ [final])"

text \<open>
  \<^verbatim>\<open>dataclasses.asdict\<close>: a \<^verbatim>\<open>TypeError\<close> unless the class of the object is a
  dataclass; the fields are the pairs of the object, copied as they are.
\<close>

definition asdict :: "pyobj \<Rightarrow> pyres result" where
  "asdict obj =
     (if ''DataclassProtocol'' \<in> set (mro obj) then py_dict obj else Inl TypeError)"

text \<open>\<^verbatim>\<open>int(obj)\<close> and \<^verbatim>\<open>float(obj)\<close> of a \<^verbatim>\<open>Decimal\<close>; the sign is \<open>True\<close> for a negative number.\<close>

definition digits_value :: "nat list \<Rightarrow> int" where
  "digits_value ds = foldl (\<lambda>a d. 10 * a + int d) 0 ds"

definition int_of_decimal :: "bool \<Rightarrow> nat list \<Rightarrow> int \<Rightarrow> pyres result" where
  "int_of_decimal sign digits e =
     Inr (RInt ((if sign then - 1 else 1) * digits_value digits * 10 ^ nat e))"

definition float_of_decimal :: "bool \<Rightarrow> nat list \<Rightarrow> decexp \<Rightarrow> pyres result" where
  "float_of_decimal sign digits exponent =
     (case exponent of
        ExpInt e \<Rightarrow> Inr (RFloat (FloatOfDecimal sign digits e))
      | ExpSpecial c \<Rightarrow>
          if c = CHR ''F'' then Inr (RFloat (FloatInf sign))
          else if c = CHR ''n'' then Inr (RFloat FloatNaN)
          else Inl ValueError)"

text \<open>A dictionary display with string keys: the values are computed in order.\<close>

definition dict_lit :: "(string \<times> pyres result) list \<Rightarrow> pyres result" where
  "dict_lit entries =
     bind_res (mapM_res (\<lambda>(k, r). bind_res r (\<lambda>v. Inr (RStr k, v))) entries)
       (\<lambda>kvs. Inr (RDict kvs))"

subsection \<open>Recognizers and converters\<close>

text \<open>
  \<^verbatim>\<open>EnumMeta\<close> is another name of the class \<^verbatim>\<open>EnumType\<close>; both are written
  \<open>''EnumType''\<close>.
\<close>

definition use_type_default :: pyfunc where
  "use_type_default = py_def 0 ''use_type_default'' (AClass ''Any'')
     (\<lambda>obj. Inr (RBool (isinstance obj [''type''])))"

definition type_default :: pyfunc where
  "type_default = py_def 1 ''type_default'' (AClass ''type'')
     (\<lambda>obj. get_res obj ''__name__'')"

definition use_builtin_default :: pyfunc where
  "use_builtin_default = py_def 2 ''use_builtin_default'' (AClass ''Any'')
     (\<lambda>obj. Inr (RBool (isinstance obj [''int'', ''float'', ''bool'', ''str'', ''list'', ''dict'', ''tuple''])))"

definition builtin_default :: pyfunc where
  "builtin_default = py_def 3 ''builtin_default'' (AUnion [''int'', ''float'', ''bool'', ''str'', ''list'', ''dict'', ''tuple''])
     (\<lambda>obj. Inr (RObj obj))"

definition use_namedtuple_default :: pyfunc where
  "use_namedtuple_default = py_def 4 ''use_namedtuple_default'' (AClass ''Any'')
     (\<lambda>obj. Inr (RBool (isinstance obj [''tuple''] \<and>
          list_all (hasattr obj) [''_field_defaults'', ''_fields'', ''_asdict''])))"

definition namedtuple_default :: pyfunc where
  "namedtuple_default = py_def 5 ''namedtuple_default'' (AClass ''NamedTupleProtocol'')
     (\<lambda>obj. get_res obj ''_asdict'')"

definition use_set_default :: pyfunc where
  "use_set_default = py_def 6 ''use_set_default'' (AClass ''Any'')
     (\<lambda>obj. Inr (RBool (isinstance obj [''set'', ''frozenset'', ''Set''])))"

definition set_default :: pyfunc where
  "set_default = py_def 7 ''set_default'' (AClass ''set'')
     (\<lambda>obj. py_list obj)"

definition use_bytes_default :: pyfunc where
  "use_bytes_default = py_def 8 ''use_bytes_default'' (AClass ''Any'')
     (\<lambda>obj. Inr (RBool (isinstance obj [''bytes'', ''bytearray'', ''memoryview''])))"

definition bytes_default :: pyfunc where
  "bytes_default = py_def 9 ''bytes_default'' (AClass ''bytes'')
     (\<lambda>obj. (case payload obj of BytesData bs \<Rightarrow> Inr (RStr (urlsafe_b64encode bs)) | _ \<Rightarrow> Inl TypeError))"

definition use_datetime_time_default :: pyfunc where
  "use_datetime_time_default = py_def 10 ''use_datetime_time_default'' (AClass ''Any'')
     (\<lambda>obj. Inr (RBool (isinstance obj [''time''])))"

definition datetime_time_default :: pyfunc where
  "datetime_time_default = py_def 11 ''datetime_time_default'' (AClass ''time'')
     (\<lambda>obj. get_res obj ''isoformat'')"

definition use_datetime_date_default :: pyfunc where
  "use_datetime_date_default = py_def 12 ''use_datetime_date_default'' (AClass ''Any'')
     (\<lambda>obj. Inr (RBool (isinstance obj [''date''])))"

definition datetime_date_default :: pyfunc where
  "datetime_date_default = py_def 13 ''datetime_date_default'' (AClass ''date'')
     (\<lambda>obj. get_res obj ''isoformat'')"

definition use_datetime_datetime_default :: pyfunc where
  "use_datetime_datetime_default = py_def 14 ''use_datetime_datetime_default'' (AClass ''Any'')
     (\<lambda>obj. Inr (RBool (isinstance obj [''datetime''])))"

definition datetime_datetime_default :: pyfunc where
  "datetime_datetime_default = py_def 15 ''datetime_datetime_default'' (AClass ''datetime'')
     (\<lambda>obj. get_res obj ''isoformat'')"

definition use_datetime_timedelta_default :: pyfunc where
  "use_datetime_timedelta_default = py_def 16 ''use_datetime_timedelta_default'' (AClass ''Any'')
     (\<lambda>obj. Inr (RBool (isinstance obj [''timedelta''])))"

definition datetime_timedelta_default :: pyfunc where
  "datetime_timedelta_default = py_def 17 ''datetime_timedelta_default'' (AClass ''timedelta'')
     (\<lambda>obj. bind_res (getattr obj ''total_seconds'') (\<lambda>t. bind_res (py_str t) (\<lambda>s. Inr (RStr s))))"

definition use_datetime_timezone_default :: pyfunc where
  "use_datetime_timezone_default = py_def 18 ''use_datetime_timezone_default'' (AClass ''Any'')
     (\<lambda>obj. Inr (RBool (isinstance obj [''timezone''])))"

definition datetime_timezone_default :: pyfunc where
  "datetime_timezone_default = py_def 19 ''datetime_timezone_default'' (AClass ''timezone'')
     (\<lambda>obj. get_res obj ''tzname'')"

definition use_enum_default :: pyfunc where
  "use_enum_default = py_def 20 ''use_enum_default'' (AClass ''Any'')
     (\<lambda>obj. (if isinstance obj [''Enum'', ''EnumType''] then Inr (RBool True)
        else bind_res (if isinstance obj [''type''] then py_issubclass obj ''Enum'' else Inr False) (\<lambda>b.
             if b then Inr (RBool True)
             else Inr (RBool (is_class obj ''EnumType'' \<or> is_class obj ''EnumType'')))))"

definition enum_default :: pyfunc where
  "enum_default = py_def 21 ''enum_default'' (AClass ''Enum'')
     (\<lambda>obj. get_res obj ''value'')"

definition use_enum_meta_default :: pyfunc where
  "use_enum_meta_default = py_def 22 ''use_enum_meta_default'' (AClass ''Any'')
     (\<lambda>obj. Inr (RBool (is_class obj ''EnumType'')))"

definition enum_meta_default :: pyfunc where
  "enum_meta_default = py_def 23 ''enum_meta_default'' (AClass ''EnumType'')
     (\<lambda>obj. bind_res (py_iter obj) (\<lambda>es. bind_res (mapM_res (\<lambda>e. get_res e ''value'') es) (\<lambda>vs. Inr (RList vs))))"

definition use_enum_type_default :: pyfunc where
  "use_enum_type_default = py_def 24 ''use_enum_type_default'' (AClass ''Any'')
     (\<lambda>obj. Inr (RBool (is_class obj ''EnumType'')))"

definition enum_type_default :: pyfunc where
  "enum_type_default = py_def 25 ''enum_type_default'' (AClass ''EnumType'')
     (\<lambda>obj. bind_res (py_iter obj) (\<lambda>es. bind_res (mapM_res (\<lambda>e. get_res e ''value'') es) (\<lambda>vs. Inr (RList vs))))"

definition use_int_enum_default :: pyfunc where
  "use_int_enum_default = py_def 26 ''use_int_enum_default'' (AClass ''Any'')
     (\<lambda>obj. Inr (RBool (isinstance obj [''IntEnum''])))"

definition int_enum_default :: pyfunc where
  "int_enum_default = py_def 27 ''int_enum_default'' (AClass ''IntEnum'')
     (\<lambda>obj. get_res obj ''value'')"

definition use_flag_default :: pyfunc where
  "use_flag_default = py_def 28 ''use_flag_default'' (AClass ''Any'')
     (\<lambda>obj. Inr (RBool (isinstance obj [''Flag''])))"

definition flag_default :: pyfunc where
  "flag_default = py_def 29 ''flag_default'' (AClass ''Flag'')
     (\<lambda>obj. get_res obj ''value'')"

definition use_int_flag_default :: pyfunc where
  "use_int_flag_default = py_def 30 ''use_int_flag_default'' (AClass ''Any'')
     (\<lambda>obj. Inr (RBool (isinstance obj [''IntFlag''])))"

definition int_flag_default :: pyfunc where
  "int_flag_default = py_def 31 ''int_flag_default'' (AClass ''IntFlag'')
     (\<lambda>obj. get_res obj ''value'')"

definition use_complex_default :: pyfunc where
  "use_complex_default = py_def 32 ''use_complex_default'' (AClass ''Any'')
     (\<lambda>obj. Inr (RBool (isinstance obj [''complex''])))"

definition complex_default :: pyfunc where
  "complex_default = py_def 33 ''complex_default'' (AClass ''complex'')
     (\<lambda>obj. bind_res (get_res obj ''real'') (\<lambda>re. bind_res (get_res obj ''imag'') (\<lambda>im. Inr (RTuple [re, im]))))"

definition use_deque_default :: pyfunc where
  "use_deque_default = py_def 34 ''use_deque_default'' (AClass ''Any'')
     (\<lambda>obj. Inr (RBool (isinstance obj [''deque''])))"

definition deque_default :: pyfunc where
  "deque_default = py_def 35 ''deque_default'' (AClass ''deque'')
     (\<lambda>obj. py_list obj)"

definition use_exception_default :: pyfunc where
  "use_exception_default = py_def 36 ''use_exception_default'' (AClass ''Any'')
     (\<lambda>obj. Inr (RBool (isinstance obj [''BaseException''])))"

definition exception_default :: pyfunc where
  "exception_default = py_def 37 ''exception_default'' (AClass ''BaseException'')
     (\<lambda>obj. (if hasattr obj ''__traceback__''
        then bind_res (getattr obj ''__traceback__'') (\<lambda>tb.
               Inr (RStr (py_strip (concat (format_exception obj tb)))))
        else bind_res (py_str obj) (\<lambda>s. Inr (RStr (class_name obj @ '': '' @ s)))))"

definition use_traceback_default :: pyfunc where
  "use_traceback_default = py_def 38 ''use_traceback_default'' (AClass ''Any'')
     (\<lambda>obj. Inr (RBool (isinstance obj [''TracebackType''])))"

definition traceback_default :: pyfunc where
  "traceback_default = py_def 39 ''traceback_default'' (AClass ''TracebackType'')
     (\<lambda>obj. Inr (RStr (py_strip (concat (format_tb obj)))))"

definition use_userstring_default :: pyfunc where
  "use_userstring_default = py_def 40 ''use_userstring_default'' (AClass ''Any'')
     (\<lambda>obj. Inr (RBool (isinstance obj [''UserString''])))"

definition userstring_default :: pyfunc where
  "userstring_default = py_def 41 ''userstring_default'' (AClass ''UserString'')
     (\<lambda>obj. bind_res (py_str obj) (\<lambda>s. Inr (RStr s)))"

definition use_userlist_default :: pyfunc where
  "use_userlist_default = py_def 42 ''use_userlist_default'' (AClass ''Any'')
     (\<lambda>obj. Inr (RBool (isinstance obj [''UserList''])))"

definition userlist_default :: pyfunc where
  "userlist_default = py_def 43 ''userlist_default'' (AClass ''UserList'')
     (\<lambda>obj. py_list obj)"

definition use_chainmap_default :: pyfunc where
  "use_chainmap_default = py_def 44 ''use_chainmap_default'' (AClass ''Any'')
     (\<lambda>obj. Inr (RBool (isinstance obj [''ChainMap''])))"

definition chainmap_default :: pyfunc where
  "chainmap_default = py_def 45 ''chainmap_default'' (AClass ''ChainMap'')
     (\<lambda>obj. bind_res (getattr obj ''maps'') (\<lambda>maps. bind_res (py_iter maps) (\<lambda>ms.
        bind_res (mapM_res py_dict ms) (\<lambda>ds. Inr (RList ds)))))"

definition use_counter_default :: pyfunc where
  "use_counter_default = py_def 46 ''use_counter_default'' (AClass ''Any'')
     (\<lambda>obj. Inr (RBool (isinstance obj [''Counter''])))"

definition counter_default :: pyfunc where
  "counter_default = py_def 47 ''counter_default'' (AClass ''Counter'')
     (\<lambda>obj. py_dict obj)"

definition use_defaultdict_default :: pyfunc where
  "use_defaultdict_default = py_def 48 ''use_defaultdict_default'' (AClass ''Any'')
     (\<lambda>obj. Inr (RBool (isinstance obj [''defaultdict''])))"

definition defaultdict_default :: pyfunc where
  "defaultdict_default = py_def 49 ''defaultdict_default'' (AClass ''defaultdict'')
     (\<lambda>obj. py_dict obj)"

definition use_ordereddict_default :: pyfunc where
  "use_ordereddict_default = py_def 50 ''use_ordereddict_default'' (AClass ''Any'')
     (\<lambda>obj. Inr (RBool (isinstance obj [''OrderedDict''])))"

definition ordereddict_default :: pyfunc where
  "ordereddict_default = py_def 51 ''ordereddict_default'' (AClass ''OrderedDict'')
     (\<lambda>obj. py_dict obj)"

definition use_dataclass_default :: pyfunc where
  "use_dataclass_default = py_def 52 ''use_dataclass_default'' (AClass ''Any'')
     (\<lambda>obj. Inr (RBool (hasattr obj ''__dataclass_fields__'' \<and> \<not> isinstance obj [''type''])))"

definition dataclass_default :: pyfunc where
  "dataclass_default = py_def 53 ''dataclass_default'' (AClass ''DataclassProtocol'')
     (\<lambda>obj. asdict obj)"

definition use_decimal_default :: pyfunc where
  "use_decimal_default = py_def 54 ''use_decimal_default'' (AClass ''Any'')
     (\<lambda>obj. Inr (RBool (isinstance obj [''Decimal''])))"

definition decimal_default :: pyfunc where
  "decimal_default = py_def 55 ''decimal_default'' (AClass ''Decimal'')
     (\<lambda>obj. (case payload obj of
          DecimalData sign digits exponent \<Rightarrow>
            (case exponent of
               ExpInt e \<Rightarrow> if e \<ge> 0 then int_of_decimal sign digits e else float_of_decimal sign digits exponent
             | ExpSpecial _ \<Rightarrow> float_of_decimal sign digits exponent)
        | _ \<Rightarrow> Inl AttributeError))"

definition use_context_default :: pyfunc where
  "use_context_default = py_def 56 ''use_context_default'' (AClass ''Any'')
     (\<lambda>obj. Inr (RBool (isinstance obj [''Context''])))"

definition context_default :: pyfunc where
  "context_default = py_def 57 ''context_default'' (AClass ''Context'')
     (\<lambda>obj. dict_lit [(''prec'', get_res obj ''prec''), (''rounding'', get_res obj ''rounding''),
                  (''Emin'', get_res obj ''Emin''), (''Emax'', get_res obj ''Emax''),
                  (''capitals'', get_res obj ''capitals''), (''clamp'', get_res obj ''clamp''),
                  (''flags'', bind_res (getattr obj ''flags'') py_list),
                  (''traps'', bind_res (getattr obj ''traps'') py_list)])"

definition use_decimal_tuple_default :: pyfunc where
  "use_decimal_tuple_default = py_def 58 ''use_decimal_tuple_default'' (AClass ''Any'')
     (\<lambda>obj. Inr (RBool (isinstance obj [''DecimalTuple''])))"

definition decimal_tuple_default :: pyfunc where
  "decimal_tuple_default = py_def 59 ''decimal_tuple_default'' (AClass ''DecimalTuple'')
     (\<lambda>obj. dict_lit [(''sign'', get_res obj ''sign''),
                  (''digits'', bind_res (getattr obj ''digits'') py_list),
                  (''exponent'', get_res obj ''exponent'')])"

definition use_ipv6address_default :: pyfunc where
  "use_ipv6address_default = py_def 60 ''use_ipv6address_default'' (AClass ''Any'')
     (\<lambda>obj. Inr (RBool (isinstance obj [''IPv6Address''])))"

definition ipv6address_default :: pyfunc where
  "ipv6address_default = py_def 61 ''ipv6address_default'' (AClass ''IPv6Address'')
     (\<lambda>obj. bind_res (py_str obj) (\<lambda>s. Inr (RStr s)))"

definition use_ipv6interface_default :: pyfunc where
  "use_ipv6interface_default = py_def 62 ''use_ipv6interface_default'' (AClass ''Any'')
     (\<lambda>obj. Inr (RBool (isinstance obj [''IPv6Interface''])))"

definition ipv6interface_default :: pyfunc where
  "ipv6interface_default = py_def 63 ''ipv6interface_default'' (AClass ''IPv6Interface'')
     (\<lambda>obj. bind_res (py_str obj) (\<lambda>s. Inr (RStr s)))"

definition use_ipv6network_default :: pyfunc where
  "use_ipv6network_default = py_def 64 ''use_ipv6network_default'' (AClass ''Any'')
     (\<lambda>obj. Inr (RBool (isinstance obj [''IPv6Network''])))"

definition ipv6network_default :: pyfunc where
  "ipv6network_default = py_def 65 ''ipv6network_default'' (AClass ''IPv6Network'')
     (\<lambda>obj. bind_res (py_str obj) (\<lambda>s. Inr (RStr s)))"

definition use_ipv4address_default :: pyfunc where
  "use_ipv4address_default = py_def 66 ''use_ipv4address_default'' (AClass ''Any'')
     (\<lambda>obj. Inr (RBool (isinstance obj [''IPv4Address''])))"

definition ipv4address_default :: pyfunc where
  "ipv4address_default = py_def 67 ''ipv4address_default'' (AClass ''IPv4Address'')
     (\<lambda>obj. bind_res (py_str obj) (\<lambda>s. Inr (RStr s)))"

definition use_ipv4interface_default :: pyfunc where
  "use_ipv4interface_default = py_def 68 ''use_ipv4interface_default'' (AClass ''Any'')
     (\<lambda>obj. Inr (RBool (isinstance obj [''IPv4Interface''])))"

definition ipv4interface_default :: pyfunc where
  "ipv4interface_default = py_def 69 ''ipv4interface_default'' (AClass ''IPv4Interface'')
     (\<lambda>obj. bind_res (py_str obj) (\<lambda>s. Inr (RStr s)))"

definition use_ipv4network_default :: pyfunc where
  "use_ipv4network_default = py_def 70 ''use_ipv4network_default'' (AClass ''Any'')
     (\<lambda>obj. Inr (RBool (isinstance obj [''IPv4Network''])))"

definition ipv4network_default :: pyfunc where
  "ipv4network_default = py_def 71 ''ipv4network_default'' (AClass ''IPv4Network'')
     (\<lambda>obj. bind_res (py_str obj) (\<lambda>s. Inr (RStr s)))"

definition use_purepath_default :: pyfunc where
  "use_purepath_default = py_def 72 ''use_purepath_default'' (AClass ''Any'')
     (\<lambda>obj. Inr (RBool (isinstance obj [''PurePath''])))"

definition purepath_default :: pyfunc where
  "purepath_default = py_def 73 ''purepath_default'' (AClass ''PurePath'')
     (\<lambda>obj. bind_res (py_str obj) (\<lambda>s. Inr (RStr s)))"

definition use_path_default :: pyfunc where
  "use_path_default = py_def 74 ''use_path_default'' (AClass ''Any'')
     (\<lambda>obj. Inr (RBool (isinstance obj [''Path''])))"

definition path_default :: pyfunc where
  "path_default = py_def 75 ''path_default'' (AClass ''Path'')
     (\<lambda>obj. bind_res (py_str obj) (\<lambda>s. Inr (RStr s)))"

definition use_posixpath_default :: pyfunc where
  "use_posixpath_default = py_def 76 ''use_posixpath_default'' (AClass ''Any'')
     (\<lambda>obj. Inr (RBool (isinstance obj [''PosixPath''])))"

definition posixpath_default :: pyfunc where
  "posixpath_default = py_def 77 ''posixpath_default'' (AClass ''PosixPath'')
     (\<lambda>obj. bind_res (py_str obj) (\<lambda>s. Inr (RStr s)))"

definition use_windowspath_default :: pyfunc where
  "use_windowspath_default = py_def 78 ''use_windowspath_default'' (AClass ''Any'')
     (\<lambda>obj. Inr (RBool (isinstance obj [''WindowsPath''])))"

definition windowspath_default :: pyfunc where
  "windowspath_default = py_def 79 ''windowspath_default'' (AClass ''WindowsPath'')
     (\<lambda>obj. bind_res (py_str obj) (\<lambda>s. Inr (RStr s)))"

definition use_pathlike_default :: pyfunc where
  "use_pathlike_default = py_def 80 ''use_pathlike_default'' (AClass ''Any'')
     (\<lambda>obj. Inr (RBool (isinstance obj [''PathLike''])))"

definition pathlike_default :: pyfunc where
  "pathlike_default = py_def 81 ''pathlike_default'' (AClass ''PathLike'')
     (\<lambda>obj. bind_res (py_str obj) (\<lambda>s. Inr (RStr s)))"

definition use_pattern_default :: pyfunc where
  "use_pattern_default = py_def 82 ''use_pattern_default'' (AClass ''Any'')
     (\<lambda>obj. Inr (RBool (isinstance obj [''Pattern''])))"

definition pattern_default :: pyfunc where
  "pattern_default = py_def 83 ''pattern_default'' (AClass ''Pattern'')
     (\<lambda>obj. get_res obj ''pattern'')"

definition use_match_default :: pyfunc where
  "use_match_default = py_def 84 ''use_match_default'' (AClass ''Any'')
     (\<lambda>obj. Inr (RBool (isinstance obj [''Match''])))"

definition match_default :: pyfunc where
  "match_default = py_def 85 ''match_default'' (AClass ''Match'')
     (\<lambda>obj. dict_lit [(''string'', get_res obj ''string''),
                  (''re'', bind_res (getattr obj ''re'') (\<lambda>r. get_res r ''pattern'')),
                  (''groups'', get_res obj ''groups''), (''groupdict'', get_res obj ''groupdict''),
                  (''start'', get_res obj ''start''), (''end'', get_res obj ''end''),
                  (''span'', get_res obj ''span'')])"

definition use_uuid_default :: pyfunc where
  "use_uuid_default = py_def 86 ''use_uuid_default'' (AClass ''Any'')
     (\<lambda>obj. Inr (RBool (isinstance obj [''UUID''])))"

definition uuid_default :: pyfunc where
  "uuid_default = py_def 87 ''uuid_default'' (AClass ''UUID'')
     (\<lambda>obj. bind_res (py_str obj) (\<lambda>s. Inr (RStr s)))"

subsection \<open>The type handlers map\<close>

text \<open>
  A value bound in a namespace: a function, or any other object, of which
  \<^verbatim>\<open>_get_typemap\<close> can see the identity as a dictionary key (objects that are equal as
  keys share it), whether it can be hashed, whether it is callable and whether it is true.
\<close>

datatype gval = GFunc pyfunc | GObj nat bool bool bool

fun is_hashable :: "gval \<Rightarrow> bool" where
  "is_hashable (GFunc f) = True"
| "is_hashable (GObj i h c t) = h"

fun is_callable :: "gval \<Rightarrow> bool" where
  "is_callable (GFunc f) = True"
| "is_callable (GObj i h c t) = c"

fun is_truthy :: "gval \<Rightarrow> bool" where
  "is_truthy (GFunc f) = True"
| "is_truthy (GObj i h c t) = t"

text \<open>
  The objects that the module imports or receives: a class or a library function
  (callable), a plain value such as a string or a tuple, and a value that cannot be
  hashed; all of them are true.
\<close>

definition py_callable :: "nat \<Rightarrow> gval" where
  "py_callable i = GObj i True True True"

definition py_value :: "nat \<Rightarrow> gval" where
  "py_value i = GObj i True False True"

definition py_unhashable :: "nat \<Rightarrow> gval" where
  "py_unhashable i = GObj i False False True"

text \<open>
  The namespace of \<^verbatim>\<open>serializers.py\<close> when \<^verbatim>\<open>_get_typemap()\<close> is called: the
  attributes of the module, the imported names, the handlers and \<^verbatim>\<open>_get_typemap\<close>
  itself. \<^verbatim>\<open>EnumMeta\<close> and \<^verbatim>\<open>EnumType\<close> are one object.
\<close>

definition module_globals :: "(string \<times> gval) list" where
  "module_globals =
    [(''__name__'', py_value 0), (''__doc__'', py_value 1), (''__package__'', py_value 2),
     (''__loader__'', py_value 3), (''__spec__'', py_unhashable 4), (''__file__'', py_value 5),
     (''__cached__'', py_value 6), (''__builtins__'', py_unhashable 7),
     (''urlsafe_b64encode'', py_callable 8), (''ChainMap'', py_callable 9),
     (''Counter'', py_callable 10), (''OrderedDict'', py_callable 11),
     (''UserList'', py_callable 12), (''UserString'', py_callable 13),
     (''defaultdict'', py_callable 14), (''deque'', py_callable 15), (''Set'', py_callable 16),
     (''asdict'', py_callable 17), (''date'', py_callable 18), (''datetime'', py_callable 19),
     (''time'', py_callable 20), (''timedelta'', py_callable 21),
     (''timezone'', py_callable 22), (''Context'', py_callable 23),
     (''Decimal'', py_callable 24), (''DecimalTuple'', py_callable 25),
     (''Enum'', py_callable 26), (''EnumMeta'', py_callable 27),
     (''EnumType'', py_callable 27), (''Flag'', py_callable 28), (''IntEnum'', py_callable 29),
     (''IntFlag'', py_callable 30), (''lru_cache'', py_callable 31),
     (''IPv4Address'', py_callable 32), (''IPv4Interface'', py_callable 33),
     (''IPv4Network'', py_callable 34), (''IPv6Address'', py_callable 35),
     (''IPv6Interface'', py_callable 36), (''IPv6Network'', py_callable 37),
     (''PathLike'', py_callable 38), (''Path'', py_callable 39),
     (''PosixPath'', py_callable 40), (''PurePath'', py_callable 41),
     (''WindowsPath'', py_callable 42), (''Match'', py_callable 43),
     (''Pattern'', py_callable 44), (''format_exception'', py_callable 45),
     (''format_tb'', py_callable 46), (''TracebackType'', py_callable 47),
     (''Any'', py_callable 48), (''TypeGuard'', py_callable 49), (''UUID'', py_callable 50),
     (''TypeHandlersMap'', py_value 51), (''DataclassProtocol'', py_callable 52),
     (''NamedTupleProtocol'', py_callable 53), (''__all__'', py_value 54),
     (''use_type_default'', GFunc use_type_default), (''type_default'', GFunc type_default),
     (''use_builtin_default'', GFunc use_builtin_default),
     (''builtin_default'', GFunc builtin_default),
     (''use_namedtuple_default'', GFunc use_namedtuple_default),
     (''namedtuple_default'', GFunc namedtuple_default),
     (''use_set_default'', GFunc use_set_default), (''set_default'', GFunc set_default),
     (''use_bytes_default'', GFunc use_bytes_default),
     (''bytes_default'', GFunc bytes_default),
     (''use_datetime_time_default'', GFunc use_datetime_time_default),
     (''datetime_time_default'', GFunc datetime_time_default),
     (''use_datetime_date_default'', GFunc use_datetime_date_default),
     (''datetime_date_default'', GFunc datetime_date_default),
     (''use_datetime_datetime_default'', GFunc use_datetime_datetime_default),
     (''datetime_datetime_default'', GFunc datetime_datetime_default),
     (''use_datetime_timedelta_default'', GFunc use_datetime_timedelta_default),
     (''datetime_timedelta_default'', GFunc datetime_timedelta_default),
     (''use_datetime_timezone_default'', GFunc use_datetime_timezone_default),
     (''datetime_timezone_default'', GFunc datetime_timezone_default),
     (''use_enum_default'', GFunc use_enum_default), (''enum_default'', GFunc enum_default),
     (''use_enum_meta_default'', GFunc use_enum_meta_default),
     (''enum_meta_default'', GFunc enum_meta_default),
     (''use_enum_type_default'', GFunc use_enum_type_default),
     (''enum_type_default'', GFunc enum_type_default),
     (''use_int_enum_default'', GFunc use_int_enum_default),
     (''int_enum_default'', GFunc int_enum_default),
     (''use_flag_default'', GFunc use_flag_default), (''flag_default'', GFunc flag_default),
     (''use_int_flag_default'', GFunc use_int_flag_default),
     (''int_flag_default'', GFunc int_flag_default),
     (''use_complex_default'', GFunc use_complex_default),
     (''complex_default'', GFunc complex_default),
     (''use_deque_default'', GFunc use_deque_default),
     (''deque_default'', GFunc deque_default),
     (''use_exception_default'', GFunc use_exception_default),
     (''exception_default'', GFunc exception_default),
     (''use_traceback_default'', GFunc use_traceback_default),
     (''traceback_default'', GFunc traceback_default),
     (''use_userstring_default'', GFunc use_userstring_default),
     (''userstring_default'', GFunc userstring_default),
     (''use_userlist_default'', GFunc use_userlist_default),
     (''userlist_default'', GFunc userlist_default),
     (''use_chainmap_default'', GFunc use_chainmap_default),
     (''chainmap_default'', GFunc chainmap_default),
     (''use_counter_default'', GFunc use_counter_default),
     (''counter_default'', GFunc counter_default),
     (''use_defaultdict_default'', GFunc use_defaultdict_default),
     (''defaultdict_default'', GFunc defaultdict_default),
     (''use_ordereddict_default'', GFunc use_ordereddict_default),
     (''ordereddict_default'', GFunc ordereddict_default),
     (''use_dataclass_default'', GFunc use_dataclass_default),
     (''dataclass_default'', GFunc dataclass_default),
     (''use_decimal_default'', GFunc use_decimal_default),
     (''decimal_default'', GFunc decimal_default),
     (''use_context_default'', GFunc use_context_default),
     (''context_default'', GFunc context_default),
     (''use_decimal_tuple_default'', GFunc use_decimal_tuple_default),
     (''decimal_tuple_default'', GFunc decimal_tuple_default),
     (''use_ipv6address_default'', GFunc use_ipv6address_default),
     (''ipv6address_default'', GFunc ipv6address_default),
     (''use_ipv6interface_default'', GFunc use_ipv6interface_default),
     (''ipv6interface_default'', GFunc ipv6interface_default),
     (''use_ipv6network_default'', GFunc use_ipv6network_default),
     (''ipv6network_default'', GFunc ipv6network_default),
     (''use_ipv4address_default'', GFunc use_ipv4address_default),
     (''ipv4address_default'', GFunc ipv4address_default),
     (''use_ipv4interface_default'', GFunc use_ipv4interface_default),
     (''ipv4interface_default'', GFunc ipv4interface_default),
     (''use_ipv4network_default'', GFunc use_ipv4network_default),
     (''ipv4network_default'', GFunc ipv4network_default),
     (''use_purepath_default'', GFunc use_purepath_default),
     (''purepath_default'', GFunc purepath_default),
     (''use_path_default'', GFunc use_path_default), (''path_default'', GFunc path_default),
     (''use_posixpath_default'', GFunc use_posixpath_default),
     (''posixpath_default'', GFunc posixpath_default),
     (''use_windowspath_default'', GFunc use_windowspath_default),
     (''windowspath_default'', GFunc windowspath_default),
     (''use_pathlike_default'', GFunc use_pathlike_default),
     (''pathlike_default'', GFunc pathlike_default),
     (''use_pattern_default'', GFunc use_pattern_default),
     (''pattern_default'', GFunc pattern_default),
     (''use_match_default'', GFunc use_match_default),
     (''match_default'', GFunc match_default), (''use_uuid_default'', GFunc use_uuid_default),
     (''uuid_default'', GFunc uuid_default), (''_get_typemap'', py_callable 55)]"

type_synonym handlers_map = "(gval \<times> gval) list"

fun get_typemap_loop :: "(string \<times> gval) list \<Rightarrow> (string \<times> gval) list \<Rightarrow> handlers_map \<Rightarrow>
    handlers_map result" where
  "get_typemap_loop g [] mapping = Inr mapping"
| "get_typemap_loop g ((name, func) # rest) mapping =
     (if startswith name ''use_'' then
        (case map_of g (str_replace ''use_'' [] name) of
           None \<Rightarrow> get_typemap_loop g rest mapping
         | Some encoder_func \<Rightarrow>
             if is_truthy encoder_func \<and> is_callable encoder_func then
               (if is_hashable func
                then get_typemap_loop g rest (AList.update func encoder_func mapping)
                else Inl TypeError)
             else get_typemap_loop g rest mapping)
      else get_typemap_loop g rest mapping)"

definition get_typemap :: "(string \<times> gval) list \<Rightarrow> handlers_map result" where
  "get_typemap g = get_typemap_loop g g []"

text \<open>
  The dispatch engine calls the keys and the values of the map and reads their type
  hints: it is written for functions. \<open>TYPEMAP\<close> is the map of the module, whose entries
  are all pairs of functions (lemma \<open>TYPEMAP_exact\<close>).
\<close>

fun function_pairs :: "handlers_map \<Rightarrow> typemap" where
  "function_pairs [] = []"
| "function_pairs ((GFunc k, GFunc v) # m) = (k, v) # function_pairs m"
| "function_pairs (_ # m) = function_pairs m"

definition TYPEMAP :: typemap where
  "TYPEMAP = (case get_typemap module_globals of Inr m \<Rightarrow> function_pairs m | Inl _ \<Rightarrow> [])"

text \<open>Importing \<^verbatim>\<open>arclog.sd\<close> runs \<^verbatim>\<open>_register_singledispatch()\<close> once.\<close>

definition import_sd :: "sd_state result" where
  "import_sd = register_singledispatch TYPEMAP initial_state"

definition module_serialize :: "pyobj \<Rightarrow> bool \<Rightarrow> pyres result" where
  "module_serialize obj raise =
     bind_res import_sd (\<lambda>st. serialize (registry st) TYPEMAP obj raise)"

section \<open>Values used in the examples\<close>

function string_of_nat :: "nat \<Rightarrow> string" where
  "string_of_nat n =
     (if n < 10 then [char_of (48 + n)]
      else string_of_nat (n div 10) @ [char_of (48 + n mod 10)])"
  by pat_completeness auto
termination
  by (relation "measure id") auto

definition string_of_int :: "int \<Rightarrow> string" where
  "string_of_int i = (if i < 0 then ''-'' @ string_of_nat (nat (- i)) else string_of_nat (nat i))"

definition py_none :: pyobj where
  "py_none = PyObj [''NoneType'', ''object''] [] (Inr ''None'') (Inr ''None'') NoneData"

definition py_int :: "int \<Rightarrow> pyobj" where
  "py_int i = PyObj [''int'', ''object''] [] (Inr (string_of_int i)) (Inr (string_of_int i)) (IntData i)"

text \<open>\<^verbatim>\<open>{1, 2, 3}\<close>, iterated in this order.\<close>

definition three_ints :: pyobj where
  "three_ints = PyObj [''set'', ''object''] [] (Inr ''{1, 2, 3}'') (Inr ''{1, 2, 3}'')
                  (Items [py_int 1, py_int 2, py_int 3])"

text \<open>An instance of a plain class that nothing handles.\<close>

definition widget :: pyobj where
  "widget = PyObj [''Widget'', ''object''] [] (Inr ''<Widget>'') (Inr ''<Widget>'') Opaque"

text \<open>An instance of a plain class whose \<^verbatim>\<open>__str__\<close> and \<^verbatim>\<open>__repr__\<close> raise.\<close>

definition broken :: pyobj where
  "broken = PyObj [''Broken'', ''object''] []
              (Inl (OtherException ''RuntimeError'')) (Inl (OtherException ''RuntimeError'')) Opaque"

text \<open>An instance of a subclass of \<^verbatim>\<open>collections.UserString\<close> whose \<^verbatim>\<open>__str__\<close> raises.\<close>

definition bad_userstring :: pyobj where
  "bad_userstring =
     PyObj [''BadString'', ''UserString'', ''Sequence'', ''Reversible'', ''Collection'', ''Sized'',
            ''Iterable'', ''Container'', ''object''] []
       (Inl (OtherException ''RuntimeError'')) (Inr ''<BadString>'') Opaque"

text \<open>\<^verbatim>\<open>class Money(Decimal)\<close>: the value \<^verbatim>\<open>Money('12')\<close>.\<close>

definition money :: pyobj where
  "money = PyObj [''Money'', ''Decimal'', ''object''] [] (Inr ''12'') (Inr ''Money(12)'')
             (DecimalData False [1, 2] (ExpInt 0))"

text \<open>\<^verbatim>\<open>Decimal('12E+1')\<close> and \<^verbatim>\<open>Decimal('1.5')\<close>.\<close>

definition decimal_120 :: pyobj where
  "decimal_120 = PyObj [''Decimal'', ''object''] [] (Inr ''1.2E+2'') (Inr ''Decimal(1.2E+2)'')
                   (DecimalData False [1, 2] (ExpInt 1))"

definition decimal_1_5 :: pyobj where
  "decimal_1_5 = PyObj [''Decimal'', ''object''] [] (Inr ''1.5'') (Inr ''Decimal(1.5)'')
                   (DecimalData False [1, 5] (ExpInt (- 1)))"

text \<open>
  An instance of a subclass of \<^verbatim>\<open>frozenset\<close> on which the attribute
  \<^verbatim>\<open>__dataclass_fields__\<close> has been set; its class is not a dataclass.
\<close>

definition tagged_frozenset :: pyobj where
  "tagged_frozenset =
     PyObj [''Tagged'', ''frozenset'', ''object''] [(''__dataclass_fields__'', py_none)]
       (Inr ''Tagged({1, 2})'') (Inr ''Tagged({1, 2})'') (Items [py_int 1, py_int 2])"

text \<open>
  \<^verbatim>\<open>class AppError(Exception)\<close> of the module \<^verbatim>\<open>app.errors\<close>: the value
  \<^verbatim>\<open>AppError('boom')\<close>, never raised, so that its \<^verbatim>\<open>__traceback__\<close> is
  \<^verbatim>\<open>None\<close>.
\<close>

definition app_error :: pyobj where
  "app_error =
     PyObj [''AppError'', ''Exception'', ''BaseException'', ''object''] [(''__traceback__'', py_none)]
       (Inr ''boom'') (Inr ''AppError(boom)'') (ExcData ''app.errors'')"

text \<open>
  An instance of a subclass of \<^verbatim>\<open>collections.UserString\<close> whose \<^verbatim>\<open>__str__\<close> raises
  \<^verbatim>\<open>NotImplementedError\<close>.
\<close>

definition abstract_userstring :: pyobj where
  "abstract_userstring =
     PyObj [''AbstractString'', ''UserString'', ''Sequence'', ''Reversible'', ''Collection'', ''Sized'',
            ''Iterable'', ''Container'', ''object''] []
       (Inl (NotImplementedError ''subclasses must implement __str__'')) (Inr ''<AbstractString>'')
       Opaque"

text \<open>\<^verbatim>\<open>ValueError()\<close>, never raised: its message is empty.\<close>

definition value_error_empty :: pyobj where
  "value_error_empty =
     PyObj [''ValueError'', ''Exception'', ''BaseException'', ''object''] [(''__traceback__'', py_none)]
       (Inr []) (Inr ''ValueError()'') (ExcData ''builtins'')"

text \<open>
  A handler pair whose converter is declared \<^verbatim>\<open>def widget_default(obj, *args: Any, **kwargs: Any)\<close>,
  without a type for \<^verbatim>\<open>obj\<close>.
\<close>

definition use_widget_default :: pyfunc where
  "use_widget_default = py_def 100 ''use_widget_default'' (AClass ''Any'')
     (\<lambda>obj. Inr (RBool (isinstance obj [''Widget''])))"

definition widget_default :: pyfunc where
  "widget_default =
     \<lparr>fn_id = 101, fn_name = ''widget_default'',
      hints = [(''args'', AClass ''Any''), (''kwargs'', AClass ''Any'')],
      body = (\<lambda>obj. bind_res (py_str obj) (\<lambda>s. Inr (RStr s)))\<rparr>"

text \<open>
  An instance of a plain class whose \<^verbatim>\<open>__str__\<close> raises \<^verbatim>\<open>SystemExit\<close>, which does
  not derive from \<^verbatim>\<open>Exception\<close>.
\<close>

definition stopper :: pyobj where
  "stopper = PyObj [''Stopper'', ''object''] []
               (Inl (NonException ''SystemExit'')) (Inr ''<Stopper>'') Opaque"

text \<open>
  The order in which \<^verbatim>\<open>_validate_typemap\<close> inspects the functions of a map: for each
  pair the converter, then the recognizer.
\<close>

definition validation_order :: "typemap \<Rightarrow> pyfunc list" where
  "validation_order tm = concat (map (\<lambda>(k, v). [v, k]) tm)"

text \<open>The registry that the import of the package leaves behind.\<close>

definition module_registry :: registry where
  "module_registry = (case import_sd of Inr st \<Rightarrow> registry st | Inl _ \<Rightarrow> [])"

text \<open>The classes that the recognizers test with \<^verbatim>\<open>isinstance\<close>.\<close>

definition recognized_classes :: "string list" where
  "recognized_classes =
     [''type'', ''int'', ''float'', ''bool'', ''str'', ''list'', ''dict'', ''tuple'', ''set'',
      ''frozenset'', ''Set'', ''bytes'', ''bytearray'', ''memoryview'', ''time'', ''date'',
      ''datetime'', ''timedelta'', ''timezone'', ''Enum'', ''EnumType'', ''IntEnum'', ''Flag'',
      ''IntFlag'', ''complex'', ''deque'', ''BaseException'', ''TracebackType'', ''UserString'',
      ''UserList'', ''ChainMap'', ''Counter'', ''defaultdict'', ''OrderedDict'', ''Decimal'',
      ''Context'', ''DecimalTuple'', ''IPv6Address'', ''IPv6Interface'', ''IPv6Network'',
      ''IPv4Address'', ''IPv4Interface'', ''IPv4Network'', ''PurePath'', ''Path'', ''PosixPath'',
      ''WindowsPath'', ''PathLike'', ''Pattern'', ''Match'', ''UUID'']"

section \<open>Evaluating the catalog\<close>

lemma bind_res_simps [simp]:
  "bind_res (Inr x) f = f x"
  "bind_res (Inl e) f = Inl e"
  by (simp_all add: bind_res_def)

lemma fn_names:
  "fn_name use_type_default = ''use_type_default''"
  "fn_name type_default = ''type_default''"
  "fn_name use_builtin_default = ''use_builtin_default''"
  "fn_name builtin_default = ''builtin_default''"
  "fn_name use_namedtuple_default = ''use_namedtuple_default''"
  "fn_name namedtuple_default = ''namedtuple_default''"
  "fn_name use_set_default = ''use_set_default''"
  "fn_name set_default = ''set_default''"
  "fn_name use_bytes_default = ''use_bytes_default''"
  "fn_name bytes_default = ''bytes_default''"
  "fn_name use_datetime_time_default = ''use_datetime_time_default''"
  "fn_name datetime_time_default = ''datetime_time_default''"
  "fn_name use_datetime_date_default = ''use_datetime_date_default''"
  "fn_name datetime_date_default = ''datetime_date_default''"
  "fn_name use_datetime_datetime_default = ''use_datetime_datetime_default''"
  "fn_name datetime_datetime_default = ''datetime_datetime_default''"
  "fn_name use_datetime_timedelta_default = ''use_datetime_timedelta_default''"
  "fn_name datetime_timedelta_default = ''datetime_timedelta_default''"
  "fn_name use_datetime_timezone_default = ''use_datetime_timezone_default''"
  "fn_name datetime_timezone_default = ''datetime_timezone_default''"
  "fn_name use_enum_default = ''use_enum_default''"
  "fn_name enum_default = ''enum_default''"
  "fn_name use_enum_meta_default = ''use_enum_meta_default''"
  "fn_name enum_meta_default = ''enum_meta_default''"
  "fn_name use_enum_type_default = ''use_enum_type_default''"
  "fn_name enum_type_default = ''enum_type_default''"
  "fn_name use_int_enum_default = ''use_int_enum_default''"
  "fn_name int_enum_default = ''int_enum_default''"
  "fn_name use_flag_default = ''use_flag_default''"
  "fn_name flag_default = ''flag_default''"
  "fn_name use_int_flag_default = ''use_int_flag_default''"
  "fn_name int_flag_default = ''int_flag_default''"
  "fn_name use_complex_default = ''use_complex_default''"
  "fn_name complex_default = ''complex_default''"
  "fn_name use_deque_default = ''use_deque_default''"
  "fn_name deque_default = ''deque_default''"
  "fn_name use_exception_default = ''use_exception_default''"
  "fn_name exception_default = ''exception_default''"
  "fn_name use_traceback_default = ''use_traceback_default''"
  "fn_name traceback_default = ''traceback_default''"
  "fn_name use_userstring_default = ''use_userstring_default''"
  "fn_name userstring_default = ''userstring_default''"
  "fn_name use_userlist_default = ''use_userlist_default''"
  "fn_name userlist_default = ''userlist_default''"
  "fn_name use_chainmap_default = ''use_chainmap_default''"
  "fn_name chainmap_default = ''chainmap_default''"
  "fn_name use_counter_default = ''use_counter_default''"
  "fn_name counter_default = ''counter_default''"
  "fn_name use_defaultdict_default = ''use_defaultdict_default''"
  "fn_name defaultdict_default = ''defaultdict_default''"
  "fn_name use_ordereddict_default = ''use_ordereddict_default''"
  "fn_name ordereddict_default = ''ordereddict_default''"
  "fn_name use_dataclass_default = ''use_dataclass_default''"
  "fn_name dataclass_default = ''dataclass_default''"
  "fn_name use_decimal_default = ''use_decimal_default''"
  "fn_name decimal_default = ''decimal_default''"
  "fn_name use_context_default = ''use_context_default''"
  "fn_name context_default = ''context_default''"
  "fn_name use_decimal_tuple_default = ''use_decimal_tuple_default''"
  "fn_name decimal_tuple_default = ''decimal_tuple_default''"
  "fn_name use_ipv6address_default = ''use_ipv6address_default''"
  "fn_name ipv6address_default = ''ipv6address_default''"
  "fn_name use_ipv6interface_default = ''use_ipv6interface_default''"
  "fn_name ipv6interface_default = ''ipv6interface_default''"
  "fn_name use_ipv6network_default = ''use_ipv6network_default''"
  "fn_name ipv6network_default = ''ipv6network_default''"
  "fn_name use_ipv4address_default = ''use_ipv4address_default''"
  "fn_name ipv4address_default = ''ipv4address_default''"
  "fn_name use_ipv4interface_default = ''use_ipv4interface_default''"
  "fn_name ipv4interface_default = ''ipv4interface_default''"
  "fn_name use_ipv4network_default = ''use_ipv4network_default''"
  "fn_name ipv4network_default = ''ipv4network_default''"
  "fn_name use_purepath_default = ''use_purepath_default''"
  "fn_name purepath_default = ''purepath_default''"
  "fn_name use_path_default = ''use_path_default''"
  "fn_name path_default = ''path_default''"
  "fn_name use_posixpath_default = ''use_posixpath_default''"
  "fn_name posixpath_default = ''posixpath_default''"
  "fn_name use_windowspath_default = ''use_windowspath_default''"
  "fn_name windowspath_default = ''windowspath_default''"
  "fn_name use_pathlike_default = ''use_pathlike_default''"
  "fn_name pathlike_default = ''pathlike_default''"
  "fn_name use_pattern_default = ''use_pattern_default''"
  "fn_name pattern_default = ''pattern_default''"
  "fn_name use_match_default = ''use_match_default''"
  "fn_name match_default = ''match_default''"
  "fn_name use_uuid_default = ''use_uuid_default''"
  "fn_name uuid_default = ''uuid_default''"
  by (simp_all add: py_def_def
      use_type_default_def type_default_def use_builtin_default_def builtin_default_def
      use_namedtuple_default_def namedtuple_default_def use_set_default_def set_default_def
      use_bytes_default_def bytes_default_def use_datetime_time_default_def
      datetime_time_default_def use_datetime_date_default_def datetime_date_default_def
      use_datetime_datetime_default_def datetime_datetime_default_def
      use_datetime_timedelta_default_def datetime_timedelta_default_def
      use_datetime_timezone_default_def datetime_timezone_default_def use_enum_default_def
      enum_default_def use_enum_meta_default_def enum_meta_default_def
      use_enum_type_default_def enum_type_default_def use_int_enum_default_def
      int_enum_default_def use_flag_default_def flag_default_def use_int_flag_default_def
      int_flag_default_def use_complex_default_def complex_default_def use_deque_default_def
      deque_default_def use_exception_default_def exception_default_def
      use_traceback_default_def traceback_default_def use_userstring_default_def
      userstring_default_def use_userlist_default_def userlist_default_def
      use_chainmap_default_def chainmap_default_def use_counter_default_def counter_default_def
      use_defaultdict_default_def defaultdict_default_def use_ordereddict_default_def
      ordereddict_default_def use_dataclass_default_def dataclass_default_def
      use_decimal_default_def decimal_default_def use_context_default_def context_default_def
      use_decimal_tuple_default_def decimal_tuple_default_def use_ipv6address_default_def
      ipv6address_default_def use_ipv6interface_default_def ipv6interface_default_def
      use_ipv6network_default_def ipv6network_default_def use_ipv4address_default_def
      ipv4address_default_def use_ipv4interface_default_def ipv4interface_default_def
      use_ipv4network_default_def ipv4network_default_def use_purepath_default_def
      purepath_default_def use_path_default_def path_default_def use_posixpath_default_def
      posixpath_default_def use_windowspath_default_def windowspath_default_def
      use_pathlike_default_def pathlike_default_def use_pattern_default_def pattern_default_def
      use_match_default_def match_default_def use_uuid_default_def uuid_default_def)

lemma fn_ids:
  "fn_id use_type_default = 0"
  "fn_id type_default = 1"
  "fn_id use_builtin_default = 2"
  "fn_id builtin_default = 3"
  "fn_id use_namedtuple_default = 4"
  "fn_id namedtuple_default = 5"
  "fn_id use_set_default = 6"
  "fn_id set_default = 7"
  "fn_id use_bytes_default = 8"
  "fn_id bytes_default = 9"
  "fn_id use_datetime_time_default = 10"
  "fn_id datetime_time_default = 11"
  "fn_id use_datetime_date_default = 12"
  "fn_id datetime_date_default = 13"
  "fn_id use_datetime_datetime_default = 14"
  "fn_id datetime_datetime_default = 15"
  "fn_id use_datetime_timedelta_default = 16"
  "fn_id datetime_timedelta_default = 17"
  "fn_id use_datetime_timezone_default = 18"
  "fn_id datetime_timezone_default = 19"
  "fn_id use_enum_default = 20"
  "fn_id enum_default = 21"
  "fn_id use_enum_meta_default = 22"
  "fn_id enum_meta_default = 23"
  "fn_id use_enum_type_default = 24"
  "fn_id enum_type_default = 25"
  "fn_id use_int_enum_default = 26"
  "fn_id int_enum_default = 27"
  "fn_id use_flag_default = 28"
  "fn_id flag_default = 29"
  "fn_id use_int_flag_default = 30"
  "fn_id int_flag_default = 31"
  "fn_id use_complex_default = 32"
  "fn_id complex_default = 33"
  "fn_id use_deque_default = 34"
  "fn_id deque_default = 35"
  "fn_id use_exception_default = 36"
  "fn_id exception_default = 37"
  "fn_id use_traceback_default = 38"
  "fn_id traceback_default = 39"
  "fn_id use_userstring_default = 40"
  "fn_id userstring_default = 41"
  "fn_id use_userlist_default = 42"
  "fn_id userlist_default = 43"
  "fn_id use_chainmap_default = 44"
  "fn_id chainmap_default = 45"
  "fn_id use_counter_default = 46"
  "fn_id counter_default = 47"
  "fn_id use_defaultdict_default = 48"
  "fn_id defaultdict_default = 49"
  "fn_id use_ordereddict_default = 50"
  "fn_id ordereddict_default = 51"
  "fn_id use_dataclass_default = 52"
  "fn_id dataclass_default = 53"
  "fn_id use_decimal_default = 54"
  "fn_id decimal_default = 55"
  "fn_id use_context_default = 56"
  "fn_id context_default = 57"
  "fn_id use_decimal_tuple_default = 58"
  "fn_id decimal_tuple_default = 59"
  "fn_id use_ipv6address_default = 60"
  "fn_id ipv6address_default = 61"
  "fn_id use_ipv6interface_default = 62"
  "fn_id ipv6interface_default = 63"
  "fn_id use_ipv6network_default = 64"
  "fn_id ipv6network_default = 65"
  "fn_id use_ipv4address_default = 66"
  "fn_id ipv4address_default = 67"
  "fn_id use_ipv4interface_default = 68"
  "fn_id ipv4interface_default = 69"
  "fn_id use_ipv4network_default = 70"
  "fn_id ipv4network_default = 71"
  "fn_id use_purepath_default = 72"
  "fn_id purepath_default = 73"
  "fn_id use_path_default = 74"
  "fn_id path_default = 75"
  "fn_id use_posixpath_default = 76"
  "fn_id posixpath_default = 77"
  "fn_id use_windowspath_default = 78"
  "fn_id windowspath_default = 79"
  "fn_id use_pathlike_default = 80"
  "fn_id pathlike_default = 81"
  "fn_id use_pattern_default = 82"
  "fn_id pattern_default = 83"
  "fn_id use_match_default = 84"
  "fn_id match_default = 85"
  "fn_id use_uuid_default = 86"
  "fn_id uuid_default = 87"
  by (simp_all add: py_def_def
      use_type_default_def type_default_def use_builtin_default_def builtin_default_def
      use_namedtuple_default_def namedtuple_default_def use_set_default_def set_default_def
      use_bytes_default_def bytes_default_def use_datetime_time_default_def
      datetime_time_default_def use_datetime_date_default_def datetime_date_default_def
      use_datetime_datetime_default_def datetime_datetime_default_def
      use_datetime_timedelta_default_def datetime_timedelta_default_def
      use_datetime_timezone_default_def datetime_timezone_default_def use_enum_default_def
      enum_default_def use_enum_meta_default_def enum_meta_default_def
      use_enum_type_default_def enum_type_default_def use_int_enum_default_def
      int_enum_default_def use_flag_default_def flag_default_def use_int_flag_default_def
      int_flag_default_def use_complex_default_def complex_default_def use_deque_default_def
      deque_default_def use_exception_default_def exception_default_def
      use_traceback_default_def traceback_default_def use_userstring_default_def
      userstring_default_def use_userlist_default_def userlist_default_def
      use_chainmap_default_def chainmap_default_def use_counter_default_def counter_default_def
      use_defaultdict_default_def defaultdict_default_def use_ordereddict_default_def
      ordereddict_default_def use_dataclass_default_def dataclass_default_def
      use_decimal_default_def decimal_default_def use_context_default_def context_default_def
      use_decimal_tuple_default_def decimal_tuple_default_def use_ipv6address_default_def
      ipv6address_default_def use_ipv6interface_default_def ipv6interface_default_def
      use_ipv6network_default_def ipv6network_default_def use_ipv4address_default_def
      ipv4address_default_def use_ipv4interface_default_def ipv4interface_default_def
      use_ipv4network_default_def ipv4network_default_def use_purepath_default_def
      purepath_default_def use_path_default_def path_default_def use_posixpath_default_def
      posixpath_default_def use_windowspath_default_def windowspath_default_def
      use_pathlike_default_def pathlike_default_def use_pattern_default_def pattern_default_def
      use_match_default_def match_default_def use_uuid_default_def uuid_default_def)

lemma obj_hints:
  "map_of (hints type_default) ''obj'' = Some (AClass ''type'')"
  "map_of (hints builtin_default) ''obj'' = Some (AUnion [''int'', ''float'', ''bool'', ''str'', ''list'', ''dict'', ''tuple''])"
  "map_of (hints namedtuple_default) ''obj'' = Some (AClass ''NamedTupleProtocol'')"
  "map_of (hints set_default) ''obj'' = Some (AClass ''set'')"
  "map_of (hints bytes_default) ''obj'' = Some (AClass ''bytes'')"
  "map_of (hints datetime_time_default) ''obj'' = Some (AClass ''time'')"
  "map_of (hints datetime_date_default) ''obj'' = Some (AClass ''date'')"
  "map_of (hints datetime_datetime_default) ''obj'' = Some (AClass ''datetime'')"
  "map_of (hints datetime_timedelta_default) ''obj'' = Some (AClass ''timedelta'')"
  "map_of (hints datetime_timezone_default) ''obj'' = Some (AClass ''timezone'')"
  "map_of (hints enum_default) ''obj'' = Some (AClass ''Enum'')"
  "map_of (hints enum_meta_default) ''obj'' = Some (AClass ''EnumType'')"
  "map_of (hints enum_type_default) ''obj'' = Some (AClass ''EnumType'')"
  "map_of (hints int_enum_default) ''obj'' = Some (AClass ''IntEnum'')"
  "map_of (hints flag_default) ''obj'' = Some (AClass ''Flag'')"
  "map_of (hints int_flag_default) ''obj'' = Some (AClass ''IntFlag'')"
  "map_of (hints complex_default) ''obj'' = Some (AClass ''complex'')"
  "map_of (hints deque_default) ''obj'' = Some (AClass ''deque'')"
  "map_of (hints exception_default) ''obj'' = Some (AClass ''BaseException'')"
  "map_of (hints traceback_default) ''obj'' = Some (AClass ''TracebackType'')"
  "map_of (hints userstring_default) ''obj'' = Some (AClass ''UserString'')"
  "map_of (hints userlist_default) ''obj'' = Some (AClass ''UserList'')"
  "map_of (hints chainmap_default) ''obj'' = Some (AClass ''ChainMap'')"
  "map_of (hints counter_default) ''obj'' = Some (AClass ''Counter'')"
  "map_of (hints defaultdict_default) ''obj'' = Some (AClass ''defaultdict'')"
  "map_of (hints ordereddict_default) ''obj'' = Some (AClass ''OrderedDict'')"
  "map_of (hints dataclass_default) ''obj'' = Some (AClass ''DataclassProtocol'')"
  "map_of (hints decimal_default) ''obj'' = Some (AClass ''Decimal'')"
  "map_of (hints context_default) ''obj'' = Some (AClass ''Context'')"
  "map_of (hints decimal_tuple_default) ''obj'' = Some (AClass ''DecimalTuple'')"
  "map_of (hints ipv6address_default) ''obj'' = Some (AClass ''IPv6Address'')"
  "map_of (hints ipv6interface_default) ''obj'' = Some (AClass ''IPv6Interface'')"
  "map_of (hints ipv6network_default) ''obj'' = Some (AClass ''IPv6Network'')"
  "map_of (hints ipv4address_default) ''obj'' = Some (AClass ''IPv4Address'')"
  "map_of (hints ipv4interface_default) ''obj'' = Some (AClass ''IPv4Interface'')"
  "map_of (hints ipv4network_default) ''obj'' = Some (AClass ''IPv4Network'')"
  "map_of (hints purepath_default) ''obj'' = Some (AClass ''PurePath'')"
  "map_of (hints path_default) ''obj'' = Some (AClass ''Path'')"
  "map_of (hints posixpath_default) ''obj'' = Some (AClass ''PosixPath'')"
  "map_of (hints windowspath_default) ''obj'' = Some (AClass ''WindowsPath'')"
  "map_of (hints pathlike_default) ''obj'' = Some (AClass ''PathLike'')"
  "map_of (hints pattern_default) ''obj'' = Some (AClass ''Pattern'')"
  "map_of (hints match_default) ''obj'' = Some (AClass ''Match'')"
  "map_of (hints uuid_default) ''obj'' = Some (AClass ''UUID'')"
  "map_of (hints use_type_default) ''obj'' = Some (AClass ''Any'')"
  "map_of (hints use_builtin_default) ''obj'' = Some (AClass ''Any'')"
  "map_of (hints use_namedtuple_default) ''obj'' = Some (AClass ''Any'')"
  "map_of (hints use_set_default) ''obj'' = Some (AClass ''Any'')"
  "map_of (hints use_bytes_default) ''obj'' = Some (AClass ''Any'')"
  "map_of (hints use_datetime_time_default) ''obj'' = Some (AClass ''Any'')"
  "map_of (hints use_datetime_date_default) ''obj'' = Some (AClass ''Any'')"
  "map_of (hints use_datetime_datetime_default) ''obj'' = Some (AClass ''Any'')"
  "map_of (hints use_datetime_timedelta_default) ''obj'' = Some (AClass ''Any'')"
  "map_of (hints use_datetime_timezone_default) ''obj'' = Some (AClass ''Any'')"
  "map_of (hints use_enum_default) ''obj'' = Some (AClass ''Any'')"
  "map_of (hints use_enum_meta_default) ''obj'' = Some (AClass ''Any'')"
  "map_of (hints use_enum_type_default) ''obj'' = Some (AClass ''Any'')"
  "map_of (hints use_int_enum_default) ''obj'' = Some (AClass ''Any'')"
  "map_of (hints use_flag_default) ''obj'' = Some (AClass ''Any'')"
  "map_of (hints use_int_flag_default) ''obj'' = Some (AClass ''Any'')"
  "map_of (hints use_complex_default) ''obj'' = Some (AClass ''Any'')"
  "map_of (hints use_deque_default) ''obj'' = Some (AClass ''Any'')"
  "map_of (hints use_exception_default) ''obj'' = Some (AClass ''Any'')"
  "map_of (hints use_traceback_default) ''obj'' = Some (AClass ''Any'')"
  "map_of (hints use_userstring_default) ''obj'' = Some (AClass ''Any'')"
  "map_of (hints use_userlist_default) ''obj'' = Some (AClass ''Any'')"
  "map_of (hints use_chainmap_default) ''obj'' = Some (AClass ''Any'')"
  "map_of (hints use_counter_default) ''obj'' = Some (AClass ''Any'')"
  "map_of (hints use_defaultdict_default) ''obj'' = Some (AClass ''Any'')"
  "map_of (hints use_ordereddict_default) ''obj'' = Some (AClass ''Any'')"
  "map_of (hints use_dataclass_default) ''obj'' = Some (AClass ''Any'')"
  "map_of (hints use_decimal_default) ''obj'' = Some (AClass ''Any'')"
  "map_of (hints use_context_default) ''obj'' = Some (AClass ''Any'')"
  "map_of (hints use_decimal_tuple_default) ''obj'' = Some (AClass ''Any'')"
  "map_of (hints use_ipv6address_default) ''obj'' = Some (AClass ''Any'')"
  "map_of (hints use_ipv6interface_default) ''obj'' = Some (AClass ''Any'')"
  "map_of (hints use_ipv6network_default) ''obj'' = Some (AClass ''Any'')"
  "map_of (hints use_ipv4address_default) ''obj'' = Some (AClass ''Any'')"
  "map_of (hints use_ipv4interface_default) ''obj'' = Some (AClass ''Any'')"
  "map_of (hints use_ipv4network_default) ''obj'' = Some (AClass ''Any'')"
  "map_of (hints use_purepath_default) ''obj'' = Some (AClass ''Any'')"
  "map_of (hints use_path_default) ''obj'' = Some (AClass ''Any'')"
  "map_of (hints use_posixpath_default) ''obj'' = Some (AClass ''Any'')"
  "map_of (hints use_windowspath_default) ''obj'' = Some (AClass ''Any'')"
  "map_of (hints use_pathlike_default) ''obj'' = Some (AClass ''Any'')"
  "map_of (hints use_pattern_default) ''obj'' = Some (AClass ''Any'')"
  "map_of (hints use_match_default) ''obj'' = Some (AClass ''Any'')"
  "map_of (hints use_uuid_default) ''obj'' = Some (AClass ''Any'')"
  by (simp_all add: py_def_def
      use_type_default_def type_default_def use_builtin_default_def builtin_default_def
      use_namedtuple_default_def namedtuple_default_def use_set_default_def set_default_def
      use_bytes_default_def bytes_default_def use_datetime_time_default_def
      datetime_time_default_def use_datetime_date_default_def datetime_date_default_def
      use_datetime_datetime_default_def datetime_datetime_default_def
      use_datetime_timedelta_default_def datetime_timedelta_default_def
      use_datetime_timezone_default_def datetime_timezone_default_def use_enum_default_def
      enum_default_def use_enum_meta_default_def enum_meta_default_def
      use_enum_type_default_def enum_type_default_def use_int_enum_default_def
      int_enum_default_def use_flag_default_def flag_default_def use_int_flag_default_def
      int_flag_default_def use_complex_default_def complex_default_def use_deque_default_def
      deque_default_def use_exception_default_def exception_default_def
      use_traceback_default_def traceback_default_def use_userstring_default_def
      userstring_default_def use_userlist_default_def userlist_default_def
      use_chainmap_default_def chainmap_default_def use_counter_default_def counter_default_def
      use_defaultdict_default_def defaultdict_default_def use_ordereddict_default_def
      ordereddict_default_def use_dataclass_default_def dataclass_default_def
      use_decimal_default_def decimal_default_def use_context_default_def context_default_def
      use_decimal_tuple_default_def decimal_tuple_default_def use_ipv6address_default_def
      ipv6address_default_def use_ipv6interface_default_def ipv6interface_default_def
      use_ipv6network_default_def ipv6network_default_def use_ipv4address_default_def
      ipv4address_default_def use_ipv4interface_default_def ipv4interface_default_def
      use_ipv4network_default_def ipv4network_default_def use_purepath_default_def
      purepath_default_def use_path_default_def path_default_def use_posixpath_default_def
      posixpath_default_def use_windowspath_default_def windowspath_default_def
      use_pathlike_default_def pathlike_default_def use_pattern_default_def pattern_default_def
      use_match_default_def match_default_def use_uuid_default_def uuid_default_def)

lemma mem_Cons_iff: "x \<in> set (y # ys) \<longleftrightarrow> y = x \<or> x \<in> set ys"
  by auto

lemma mem_Nil_iff: "x \<in> set [] \<longleftrightarrow> False"
  by simp

lemma distinct_globals: "distinct (map fst module_globals)"
  unfolding module_globals_def
  by (simp only: list.map fst_conv distinct.simps mem_Cons_iff mem_Nil_iff list.inject char.inject
      simp_thms list.distinct)

lemma map_of_all:
  "distinct (map fst g) \<Longrightarrow> g = xs \<Longrightarrow> list_all (\<lambda>(n, v). map_of g n = Some v) xs"
  by (auto simp: list_all_iff)

lemmas globals_lookup_all =
  map_of_all [OF distinct_globals module_globals_def, unfolded list_all_Cons_iff list_all_Nil_iff prod.case]

text \<open>Function objects with different identities are different objects.\<close>

lemma pyfunc_neq: "fn_id a \<noteq> fn_id b \<Longrightarrow> (a = b) = False"
  by auto

lemma get_typemap_module:
  "get_typemap module_globals = Inr
    [(GFunc use_type_default, GFunc type_default),
     (GFunc use_builtin_default, GFunc builtin_default),
     (GFunc use_namedtuple_default, GFunc namedtuple_default),
     (GFunc use_set_default, GFunc set_default),
     (GFunc use_bytes_default, GFunc bytes_default),
     (GFunc use_datetime_time_default, GFunc datetime_time_default),
     (GFunc use_datetime_date_default, GFunc datetime_date_default),
     (GFunc use_datetime_datetime_default, GFunc datetime_datetime_default),
     (GFunc use_datetime_timedelta_default, GFunc datetime_timedelta_default),
     (GFunc use_datetime_timezone_default, GFunc datetime_timezone_default),
     (GFunc use_enum_default, GFunc enum_default),
     (GFunc use_enum_meta_default, GFunc enum_meta_default),
     (GFunc use_enum_type_default, GFunc enum_type_default),
     (GFunc use_int_enum_default, GFunc int_enum_default),
     (GFunc use_flag_default, GFunc flag_default),
     (GFunc use_int_flag_default, GFunc int_flag_default),
     (GFunc use_complex_default, GFunc complex_default),
     (GFunc use_deque_default, GFunc deque_default),
     (GFunc use_exception_default, GFunc exception_default),
     (GFunc use_traceback_default, GFunc traceback_default),
     (GFunc use_userstring_default, GFunc userstring_default),
     (GFunc use_userlist_default, GFunc userlist_default),
     (GFunc use_chainmap_default, GFunc chainmap_default),
     (GFunc use_counter_default, GFunc counter_default),
     (GFunc use_defaultdict_default, GFunc defaultdict_default),
     (GFunc use_ordereddict_default, GFunc ordereddict_default),
     (GFunc use_dataclass_default, GFunc dataclass_default),
     (GFunc use_decimal_default, GFunc decimal_default),
     (GFunc use_context_default, GFunc context_default),
     (GFunc use_decimal_tuple_default, GFunc decimal_tuple_default),
     (GFunc use_ipv6address_default, GFunc ipv6address_default),
     (GFunc use_ipv6interface_default, GFunc ipv6interface_default),
     (GFunc use_ipv6network_default, GFunc ipv6network_default),
     (GFunc use_ipv4address_default, GFunc ipv4address_default),
     (GFunc use_ipv4interface_default, GFunc ipv4interface_default),
     (GFunc use_ipv4network_default, GFunc ipv4network_default),
     (GFunc use_purepath_default, GFunc purepath_default),
     (GFunc use_path_default, GFunc path_default),
     (GFunc use_posixpath_default, GFunc posixpath_default),
     (GFunc use_windowspath_default, GFunc windowspath_default),
     (GFunc use_pathlike_default, GFunc pathlike_default),
     (GFunc use_pattern_default, GFunc pattern_default),
     (GFunc use_match_default, GFunc match_default),
     (GFunc use_uuid_default, GFunc uuid_default)]"
  unfolding get_typemap_def
  apply (subst (2) module_globals_def)
  apply (simp only: get_typemap_loop.simps startswith_def str_replace.simps take_Suc_Cons take_0
      drop_Suc_Cons drop_0 list.size add_Suc_right add_0_right add_0 append_Nil append_Cons
      globals_lookup_all is_truthy.simps is_callable.simps is_hashable.simps
      AList.update.simps fst_conv gval.inject pyfunc_neq fn_ids
      numeral_eq_iff num.inject num.distinct zero_neq_numeral numeral_neq_zero
      one_eq_numeral_iff numeral_eq_one_iff zero_neq_one one_neq_zero
      option.case list.inject char.inject simp_thms if_False if_True list.distinct
      cong: if_weak_cong option.case_cong_weak)
  done

lemma TYPEMAP_eq:
  "TYPEMAP =
    [(use_type_default, type_default), (use_builtin_default, builtin_default),
     (use_namedtuple_default, namedtuple_default), (use_set_default, set_default),
     (use_bytes_default, bytes_default), (use_datetime_time_default, datetime_time_default),
     (use_datetime_date_default, datetime_date_default),
     (use_datetime_datetime_default, datetime_datetime_default),
     (use_datetime_timedelta_default, datetime_timedelta_default),
     (use_datetime_timezone_default, datetime_timezone_default),
     (use_enum_default, enum_default), (use_enum_meta_default, enum_meta_default),
     (use_enum_type_default, enum_type_default), (use_int_enum_default, int_enum_default),
     (use_flag_default, flag_default), (use_int_flag_default, int_flag_default),
     (use_complex_default, complex_default), (use_deque_default, deque_default),
     (use_exception_default, exception_default), (use_traceback_default, traceback_default),
     (use_userstring_default, userstring_default), (use_userlist_default, userlist_default),
     (use_chainmap_default, chainmap_default), (use_counter_default, counter_default),
     (use_defaultdict_default, defaultdict_default),
     (use_ordereddict_default, ordereddict_default),
     (use_dataclass_default, dataclass_default), (use_decimal_default, decimal_default),
     (use_context_default, context_default),
     (use_decimal_tuple_default, decimal_tuple_default),
     (use_ipv6address_default, ipv6address_default),
     (use_ipv6interface_default, ipv6interface_default),
     (use_ipv6network_default, ipv6network_default),
     (use_ipv4address_default, ipv4address_default),
     (use_ipv4interface_default, ipv4interface_default),
     (use_ipv4network_default, ipv4network_default), (use_purepath_default, purepath_default),
     (use_path_default, path_default), (use_posixpath_default, posixpath_default),
     (use_windowspath_default, windowspath_default), (use_pathlike_default, pathlike_default),
     (use_pattern_default, pattern_default), (use_match_default, match_default),
     (use_uuid_default, uuid_default)]"
  unfolding TYPEMAP_def get_typemap_module
  by (simp only: sum.case function_pairs.simps)

lemma TYPEMAP_exact:
  "get_typemap module_globals = Inr (map (\<lambda>(k, v). (GFunc k, GFunc v)) TYPEMAP)"
  unfolding TYPEMAP_eq get_typemap_module
  by (simp only: list.map prod.case)

lemma validate_type_handler_ok:
  "map_of (hints f) ''obj'' \<noteq> None \<Longrightarrow> validate_type_handler f c = Inr (c(f := True))"
  by (simp add: validate_type_handler_def)

lemma validate_typemap_ok:
  "list_all (\<lambda>(k, v). map_of (hints k) ''obj'' \<noteq> None \<and> map_of (hints v) ''obj'' \<noteq> None) tm
   \<Longrightarrow> \<exists>c'. validate_typemap tm c = Inr c'"
proof (induction tm arbitrary: c)
  case Nil
  then show ?case by simp
next
  case (Cons p tm)
  obtain k v where p: "p = (k, v)" by (cases p)
  from Cons.prems p have hk: "map_of (hints k) ''obj'' \<noteq> None"
    and hv: "map_of (hints v) ''obj'' \<noteq> None"
    and rest: "list_all (\<lambda>(k, v). map_of (hints k) ''obj'' \<noteq> None \<and> map_of (hints v) ''obj'' \<noteq> None) tm"
    by auto
  obtain c1 where c1: "(if c v then Inr c else validate_type_handler v c) = Inr c1"
    using validate_type_handler_ok [OF hv, of c] by (cases "c v") auto
  obtain c2 where c2: "(if c1 k then Inr c1 else validate_type_handler k c1) = Inr c2"
    using validate_type_handler_ok [OF hk, of c1] by (cases "c1 k") auto
  from Cons.IH [OF rest, of c2] obtain c' where "validate_typemap tm c2 = Inr c'" by blast
  with c1 c2 p show ?case by (simp add: bind_res_def)
qed

lemma TYPEMAP_validates: "\<exists>c'. validate_typemap TYPEMAP c = Inr c'"
  by (rule validate_typemap_ok) (simp add: TYPEMAP_eq obj_hints)

lemma register_all_TYPEMAP:
  "register_all TYPEMAP initial_registry [] = Inr
    (    [(''object'', Generic), (''type'', Registered type_default),
     (''int'', Registered builtin_default), (''float'', Registered builtin_default),
     (''bool'', Registered builtin_default), (''str'', Registered builtin_default),
     (''list'', Registered builtin_default), (''dict'', Registered builtin_default),
     (''tuple'', Registered builtin_default),
     (''NamedTupleProtocol'', Registered namedtuple_default),
     (''set'', Registered set_default), (''bytes'', Registered bytes_default),
     (''time'', Registered datetime_time_default),
     (''date'', Registered datetime_date_default),
     (''datetime'', Registered datetime_datetime_default),
     (''timedelta'', Registered datetime_timedelta_default),
     (''timezone'', Registered datetime_timezone_default),
     (''Enum'', Registered enum_default), (''EnumType'', Registered enum_type_default),
     (''IntEnum'', Registered int_enum_default), (''Flag'', Registered flag_default),
     (''IntFlag'', Registered int_flag_default),
     (''complex'', Registered complex_default), (''deque'', Registered deque_default),
     (''BaseException'', Registered exception_default),
     (''TracebackType'', Registered traceback_default),
     (''UserString'', Registered userstring_default),
     (''UserList'', Registered userlist_default),
     (''ChainMap'', Registered chainmap_default),
     (''Counter'', Registered counter_default),
     (''defaultdict'', Registered defaultdict_default),
     (''OrderedDict'', Registered ordereddict_default),
     (''DataclassProtocol'', Registered dataclass_default),
     (''Decimal'', Registered decimal_default),
     (''Context'', Registered context_default),
     (''DecimalTuple'', Registered decimal_tuple_default),
     (''IPv6Address'', Registered ipv6address_default),
     (''IPv6Interface'', Registered ipv6interface_default),
     (''IPv6Network'', Registered ipv6network_default),
     (''IPv4Address'', Registered ipv4address_default),
     (''IPv4Interface'', Registered ipv4interface_default),
     (''IPv4Network'', Registered ipv4network_default),
     (''PurePath'', Registered purepath_default), (''Path'', Registered path_default),
     (''PosixPath'', Registered posixpath_default),
     (''WindowsPath'', Registered windowspath_default),
     (''PathLike'', Registered pathlike_default),
     (''Pattern'', Registered pattern_default), (''Match'', Registered match_default),
     (''UUID'', Registered uuid_default)], [])"
  unfolding TYPEMAP_eq initial_registry_def
  by (simp only: register_all.simps obj_hints option.case register_def annot.case sum.case
      fold_simps AList.update.simps fst_conv o_apply list.inject char.inject simp_thms if_False if_True
      list.distinct
      cong: if_weak_cong option.case_cong_weak sum.case_cong_weak annot.case_cong_weak)

lemma import_sd_ok:
  "\<exists>st. import_sd = Inr st \<and>
     register_all TYPEMAP initial_registry [] = Inr (registry st, excepted_handlers st)"
proof -
  obtain c where c: "validate_typemap TYPEMAP (\<lambda>_. False) = Inr c"
    using TYPEMAP_validates by blast
  obtain reg exc where r: "register_all TYPEMAP initial_registry [] = Inr (reg, exc)"
    by (rule that) (rule register_all_TYPEMAP)
  have i: "import_sd = Inr \<lparr>validation_cache = c, registry = reg, excepted_handlers = exc\<rparr>"
    unfolding import_sd_def register_singledispatch_def initial_state_def
    by (simp only: sd_state.simps bind_res_def sum.case c r prod.case)
  show ?thesis
    by (rule exI [of _ "\<lparr>validation_cache = c, registry = reg, excepted_handlers = exc\<rparr>"])
       (simp add: i r)
qed

lemma module_registry_eq:
  "module_registry =
    [(''object'', Generic), (''type'', Registered type_default),
     (''int'', Registered builtin_default), (''float'', Registered builtin_default),
     (''bool'', Registered builtin_default), (''str'', Registered builtin_default),
     (''list'', Registered builtin_default), (''dict'', Registered builtin_default),
     (''tuple'', Registered builtin_default),
     (''NamedTupleProtocol'', Registered namedtuple_default),
     (''set'', Registered set_default), (''bytes'', Registered bytes_default),
     (''time'', Registered datetime_time_default),
     (''date'', Registered datetime_date_default),
     (''datetime'', Registered datetime_datetime_default),
     (''timedelta'', Registered datetime_timedelta_default),
     (''timezone'', Registered datetime_timezone_default),
     (''Enum'', Registered enum_default), (''EnumType'', Registered enum_type_default),
     (''IntEnum'', Registered int_enum_default), (''Flag'', Registered flag_default),
     (''IntFlag'', Registered int_flag_default),
     (''complex'', Registered complex_default), (''deque'', Registered deque_default),
     (''BaseException'', Registered exception_default),
     (''TracebackType'', Registered traceback_default),
     (''UserString'', Registered userstring_default),
     (''UserList'', Registered userlist_default),
     (''ChainMap'', Registered chainmap_default),
     (''Counter'', Registered counter_default),
     (''defaultdict'', Registered defaultdict_default),
     (''OrderedDict'', Registered ordereddict_default),
     (''DataclassProtocol'', Registered dataclass_default),
     (''Decimal'', Registered decimal_default),
     (''Context'', Registered context_default),
     (''DecimalTuple'', Registered decimal_tuple_default),
     (''IPv6Address'', Registered ipv6address_default),
     (''IPv6Interface'', Registered ipv6interface_default),
     (''IPv6Network'', Registered ipv6network_default),
     (''IPv4Address'', Registered ipv4address_default),
     (''IPv4Interface'', Registered ipv4interface_default),
     (''IPv4Network'', Registered ipv4network_default),
     (''PurePath'', Registered purepath_default), (''Path'', Registered path_default),
     (''PosixPath'', Registered posixpath_default),
     (''WindowsPath'', Registered windowspath_default),
     (''PathLike'', Registered pathlike_default),
     (''Pattern'', Registered pattern_default), (''Match'', Registered match_default),
     (''UUID'', Registered uuid_default)]"
proof -
  from import_sd_ok obtain st where st: "import_sd = Inr st"
    and r: "register_all TYPEMAP initial_registry [] = Inr (registry st, excepted_handlers st)"
    by (elim exE conjE)
  have m: "module_registry = registry st"
    unfolding module_registry_def st by (simp only: sum.case)
  from r [unfolded register_all_TYPEMAP] show ?thesis
    unfolding m by (simp only: sum.inject prod.inject)
qed

lemma module_serialize_eq:
  "module_serialize obj raise = serialize module_registry TYPEMAP obj raise"
proof -
  from import_sd_ok obtain st where st: "import_sd = Inr st" by (elim exE conjE)
  show ?thesis unfolding module_registry_def module_serialize_def bind_res_def st
    by (simp only: sum.case)
qed

text \<open>Every converter of the module is keyed by a class: no handler is set aside.\<close>

lemma module_excepted_handlers: "\<exists>st. import_sd = Inr st \<and> excepted_handlers st = []"
proof -
  from import_sd_ok obtain st where st: "import_sd = Inr st"
    and r: "register_all TYPEMAP initial_registry [] = Inr (registry st, excepted_handlers st)"
    by (elim exE conjE)
  from r [unfolded register_all_TYPEMAP] have "excepted_handlers st = []"
    by (simp only: sum.inject prod.inject)
  with st show ?thesis by blast
qed

lemma not_isinstance:
  "\<forall>c \<in> set (mro x). c \<notin> set hs \<Longrightarrow> list_all (\<lambda>c. c \<in> set hs) cs \<Longrightarrow> \<not> isinstance x cs"
  by (auto simp: isinstance_def list_ex_iff list_all_iff)

lemma unrecognized:
  assumes cls: "list_all (\<lambda>c. c \<notin> set (mro x)) recognized_classes"
    and dc: "\<not> hasattr x ''__dataclass_fields__''"
    and en: "\<not> is_class x ''EnumType''"
  shows "list_all (\<lambda>(k, v). body k x = Inr (RBool False)) TYPEMAP"
proof -
  note facts = cls [unfolded recognized_classes_def list_all_Cons_iff list_all_Nil_iff]
  show ?thesis
    unfolding TYPEMAP_eq
    using facts dc en
    by (simp add: py_def_def isinstance_def
      use_type_default_def use_builtin_default_def use_namedtuple_default_def use_set_default_def use_bytes_default_def use_datetime_time_default_def use_datetime_date_default_def use_datetime_datetime_default_def use_datetime_timedelta_default_def use_datetime_timezone_default_def use_enum_default_def use_enum_meta_default_def use_enum_type_default_def use_int_enum_default_def use_flag_default_def use_int_flag_default_def use_complex_default_def use_deque_default_def use_exception_default_def use_traceback_default_def use_userstring_default_def use_userlist_default_def use_chainmap_default_def use_counter_default_def use_defaultdict_default_def use_ordereddict_default_def use_dataclass_default_def use_decimal_default_def use_context_default_def use_decimal_tuple_default_def use_ipv6address_default_def use_ipv6interface_default_def use_ipv6network_default_def use_ipv4address_default_def use_ipv4interface_default_def use_ipv4network_default_def use_purepath_default_def use_path_default_def use_posixpath_default_def use_windowspath_default_def use_pathlike_default_def use_pattern_default_def use_match_default_def use_uuid_default_def)
qed

section \<open>Dispatch lemmas\<close>

lemma distinct_registry: "distinct (map fst module_registry)"
  unfolding module_registry_eq
  by (simp only: list.map fst_conv distinct.simps mem_Cons_iff mem_Nil_iff list.inject char.inject
      simp_thms list.distinct)

lemmas registry_lookup_all =
  map_of_all [OF distinct_registry module_registry_eq, unfolded list_all_Cons_iff list_all_Nil_iff prod.case]

lemma registry_misses:
  "map_of module_registry ''NoneType'' = None"
  "map_of module_registry ''Widget'' = None"
  "map_of module_registry ''Broken'' = None"
  "map_of module_registry ''BadString'' = None"
  "map_of module_registry ''Money'' = None"
  "map_of module_registry ''Tagged'' = None"
  "map_of module_registry ''frozenset'' = None"
  "map_of module_registry ''AppError'' = None"
  "map_of module_registry ''Exception'' = None"
  "map_of module_registry ''AbstractString'' = None"
  "map_of module_registry ''ValueError'' = None"
  unfolding module_registry_eq
  by (simp_all only: map_of_Cons_code list.inject char.inject simp_thms if_False if_True
      list.distinct cong: if_weak_cong)

lemma scan_typemap_None:
  "\<forall>(k, v) \<in> set tm. \<exists>b. body k x = Inr b \<and> \<not> truthy b \<Longrightarrow> scan_typemap tm x = None"
  by (induction tm) auto

lemma scan_typemap_None_iff:
  "scan_typemap tm x = None \<longleftrightarrow> (\<forall>(k, v) \<in> set tm. \<exists>b. body k x = Inr b \<and> \<not> truthy b)"
proof (induction tm)
  case Nil
  show ?case by simp
next
  case (Cons p tm)
  obtain k v where p: "p = (k, v)" by (cases p)
  show ?case
    using Cons.IH unfolding p by (cases "body k x") auto
qed

lemma scan_typemap_first:
  assumes "\<forall>(k', v') \<in> set pre. \<exists>b. body k' x = Inr b \<and> \<not> truthy b"
    and "body k x = Inr b" and "truthy b"
  shows "scan_typemap (pre @ (k, v) # post) x = Some (body v x)"
  using assms by (induction pre) auto

lemma unknown_default_total:
  assumes "\<forall>e. py_str x = Inl e \<longrightarrow> is_Exception e"
    and "\<forall>e. py_repr x = Inl e \<longrightarrow> is_Exception e"
  shows "unknown_default x =
     Inr (case py_str x of Inr s \<Rightarrow> s
          | Inl _ \<Rightarrow> (case py_repr x of Inr r \<Rightarrow> r | Inl _ \<Rightarrow> ''__failed_to_encode__''))"
  using assms by (auto simp: unknown_default_def split: sum.splits)

lemma find_impl_first:
  assumes "map_of reg T = Some i" and "\<forall>t \<in> set pre. map_of reg t = None"
  shows "find_impl (pre @ T # post) reg = Some i"
  using assms by (induction pre) auto

lemma broken_unrecognized:
  "\<forall>(k, v) \<in> set TYPEMAP. \<exists>b. body k broken = Inr b \<and> \<not> truthy b"
proof -
  have "list_all (\<lambda>(k, v). body k broken = Inr (RBool False)) TYPEMAP"
    by (rule unrecognized)
       (simp_all add: broken_def recognized_classes_def hasattr_def is_class_def)
  then show ?thesis by (auto simp: list_all_iff)
qed

lemma widget_unrecognized:
  "\<forall>(k, v) \<in> set TYPEMAP. \<exists>b. body k widget = Inr b \<and> \<not> truthy b"
proof -
  have "list_all (\<lambda>(k, v). body k widget = Inr (RBool False)) TYPEMAP"
    by (rule unrecognized)
       (simp_all add: widget_def recognized_classes_def hasattr_def is_class_def)
  then show ?thesis by (auto simp: list_all_iff)
qed

lemma widget_find_impl: "find_impl (mro widget) module_registry = Some Generic"
  by (simp add: widget_def registry_misses registry_lookup_all)

lemma stopper_miss: "map_of module_registry ''Stopper'' = None"
  unfolding module_registry_eq
  by (simp only: map_of_Cons_code list.inject char.inject simp_thms if_False if_True
      list.distinct cong: if_weak_cong)

lemma stopper_unrecognized:
  "\<forall>(k, v) \<in> set TYPEMAP. \<exists>b. body k stopper = Inr b \<and> \<not> truthy b"
proof -
  have "list_all (\<lambda>(k, v). body k stopper = Inr (RBool False)) TYPEMAP"
    by (rule unrecognized)
       (simp_all add: stopper_def recognized_classes_def hasattr_def is_class_def)
  then show ?thesis by (auto simp: list_all_iff)
qed

lemma widget_no_NotImplementedError:
  "\<forall>(k, v) \<in> set TYPEMAP. \<forall>m. body k widget \<noteq> Inl (NotImplementedError m) \<and>
                                    body v widget \<noteq> Inl (NotImplementedError m)"
proof -
  have k: "\<forall>(k, v) \<in> set TYPEMAP. \<forall>m. body k widget \<noteq> Inl (NotImplementedError m)"
    using widget_unrecognized by fastforce
  have v: "\<forall>(k, v) \<in> set TYPEMAP. \<forall>m. body v widget \<noteq> Inl (NotImplementedError m)"
    unfolding TYPEMAP_eq
    by (simp add: py_def_def widget_def get_res_def getattr_def py_list_def py_iter_def
      py_dict_def py_str_def hasattr_def asdict_def dict_lit_def
      type_default_def builtin_default_def namedtuple_default_def set_default_def bytes_default_def datetime_time_default_def datetime_date_default_def datetime_datetime_default_def datetime_timedelta_default_def datetime_timezone_default_def enum_default_def enum_meta_default_def enum_type_default_def int_enum_default_def flag_default_def int_flag_default_def complex_default_def deque_default_def exception_default_def traceback_default_def userstring_default_def userlist_default_def chainmap_default_def counter_default_def defaultdict_default_def ordereddict_default_def dataclass_default_def decimal_default_def context_default_def decimal_tuple_default_def ipv6address_default_def ipv6interface_default_def ipv6network_default_def ipv4address_default_def ipv4interface_default_def ipv4network_default_def purepath_default_def path_default_def posixpath_default_def windowspath_default_def pathlike_default_def pattern_default_def match_default_def uuid_default_def)
  from k v show ?thesis by fastforce
qed

lemma frozenset_scan:
  assumes "mro x = [''frozenset'', ''object'']"
  shows "scan_typemap TYPEMAP x = Some (body set_default x)"
  unfolding TYPEMAP_eq
  by (simp add: assms use_type_default_def use_builtin_default_def use_namedtuple_default_def
      use_set_default_def py_def_def isinstance_def)

lemma validation_order_Cons:
  "validation_order ((k, v) # tm) = v # k # validation_order tm"
  by (simp add: validation_order_def)

lemma validate_typemap_first:
  assumes "\<forall>g. c g \<longrightarrow> map_of (hints g) ''obj'' \<noteq> None"
    and "find (\<lambda>f. map_of (hints f) ''obj'' = None) (validation_order tm) = Some f"
  shows "validate_typemap tm c = Inl (MissingAnnotationError (missing_annotation_msg f))"
  using assms
proof (induction tm arbitrary: c)
  case Nil
  then show ?case by (simp add: validation_order_def)
next
  case (Cons p tm)
  obtain k v where p: "p = (k, v)" by (cases p)
  show ?case
  proof (cases "map_of (hints v) ''obj'' = None")
    case True
    with Cons.prems(2) have "f = v" by (simp add: p validation_order_Cons)
    moreover from Cons.prems(1) True have "\<not> c v" by auto
    ultimately show ?thesis using True by (simp add: p validate_type_handler_def)
  next
    case hv: False
    define c1 where "c1 = (if c v then c else c(v := True))"
    have step1: "(if c v then Inr c else validate_type_handler v c) = Inr c1"
      using hv by (auto simp: c1_def validate_type_handler_def)
    have sound1: "\<forall>g. c1 g \<longrightarrow> map_of (hints g) ''obj'' \<noteq> None"
      using Cons.prems(1) hv by (auto simp: c1_def)
    show ?thesis
    proof (cases "map_of (hints k) ''obj'' = None")
      case True
      with Cons.prems(2) hv have "f = k" by (simp add: p validation_order_Cons)
      moreover from sound1 True have "\<not> c1 k" by auto
      ultimately show ?thesis
        using True step1 by (simp add: p validate_type_handler_def)
    next
      case hk: False
      define c2 where "c2 = (if c1 k then c1 else c1(k := True))"
      have step2: "(if c1 k then Inr c1 else validate_type_handler k c1) = Inr c2"
        using hk by (auto simp: c2_def validate_type_handler_def)
      have sound2: "\<forall>g. c2 g \<longrightarrow> map_of (hints g) ''obj'' \<noteq> None"
        using sound1 hk by (auto simp: c2_def)
      from Cons.prems(2) hv hk
      have "find (\<lambda>f. map_of (hints f) ''obj'' = None) (validation_order tm) = Some f"
        by (simp add: p validation_order_Cons)
      from Cons.IH [OF sound2 this]
      have "validate_typemap tm c2 = Inl (MissingAnnotationError (missing_annotation_msg f))" .
      moreover have "validate_typemap (p # tm) c = validate_typemap tm c2"
        unfolding p validate_typemap.simps step1 bind_res_simps step2 ..
      ultimately show ?thesis by simp
    qed
  qed
qed

lemma update_entries:
  "(a, b) \<in> set (AList.update k v m) \<Longrightarrow> (a, b) \<in> set m \<or> (a = k \<and> b = v)"
  by (induction m) (auto split: if_splits)

lemma get_typemap_loop_entries:
  "get_typemap_loop g rest m0 = Inr m \<Longrightarrow> (k, v) \<in> set m \<Longrightarrow>
   (k, v) \<in> set m0 \<or>
   (\<exists>n. (n, k) \<in> set rest \<and> startswith n ''use_'' \<and>
        map_of g (str_replace ''use_'' [] n) = Some v \<and> is_truthy v \<and> is_callable v)"
proof (induction rest arbitrary: m0)
  case Nil
  then show ?case by simp
next
  case (Cons p rest)
  obtain name func where p: "p = (name, func)" by (cases p)
  let ?enc = "map_of g (str_replace ''use_'' [] name)"
  show ?case
  proof (cases "startswith name ''use_'' \<and>
                (\<exists>e. ?enc = Some e \<and> is_truthy e \<and> is_callable e)")
    case False
    with Cons.prems(1) have "get_typemap_loop g rest m0 = Inr m"
      by (auto simp: p split: option.splits if_splits)
    from Cons.IH [OF this Cons.prems(2)] show ?thesis by auto
  next
    case True
    then obtain e where sw: "startswith name ''use_''" and e: "?enc = Some e"
      and te: "is_truthy e" and ce: "is_callable e"
      by blast
    with Cons.prems(1) have run: "get_typemap_loop g rest (AList.update func e m0) = Inr m"
      by (auto simp: p split: if_splits)
    from Cons.IH [OF run Cons.prems(2)] show ?thesis
    proof
      assume "(k, v) \<in> set (AList.update func e m0)"
      from update_entries [OF this] show ?thesis
      proof
        assume "(k, v) \<in> set m0"
        then show ?thesis by simp
      next
        assume "k = func \<and> v = e"
        with sw e te ce have "(name, k) \<in> set (p # rest) \<and> startswith name ''use_'' \<and>
            map_of g (str_replace ''use_'' [] name) = Some v \<and> is_truthy v \<and> is_callable v"
          by (simp add: p)
        then show ?thesis by blast
      qed
    next
      assume "\<exists>n. (n, k) \<in> set rest \<and> startswith n ''use_'' \<and>
        map_of g (str_replace ''use_'' [] n) = Some v \<and> is_truthy v \<and> is_callable v"
      then show ?thesis by auto
    qed
  qed
qed

lemma get_typemap_loop_distinct:
  "get_typemap_loop g rest m0 = Inr m \<Longrightarrow> distinct (map fst m0) \<Longrightarrow> distinct (map fst m)"
proof (induction rest arbitrary: m0)
  case Nil
  then show ?case by simp
next
  case (Cons p rest)
  obtain name func where p: "p = (name, func)" by (cases p)
  from Cons.prems(1) consider "get_typemap_loop g rest m0 = Inr m"
    | e where "get_typemap_loop g rest (AList.update func e m0) = Inr m"
    by (auto simp: p split: option.splits if_splits)
  then show ?case
  proof cases
    case 1
    from Cons.IH [OF this Cons.prems(2)] show ?thesis .
  next
    case 2
    from Cons.IH [OF this distinct_update [OF Cons.prems(2)]] show ?thesis .
  qed
qed

lemma get_typemap_loop_value:
  assumes "get_typemap_loop g rest m0 = Inr m"
    and "\<forall>n'. (n', k) \<in> set rest \<longrightarrow> n' = n"
    and "startswith n ''use_''"
    and "map_of g (str_replace ''use_'' [] n) = Some v"
    and "is_truthy v" and "is_callable v"
    and "(n, k) \<in> set rest \<or> map_of m0 k = Some v"
  shows "map_of m k = Some v"
  using assms(1,2,7)
proof (induction rest arbitrary: m0)
  case Nil
  then show ?case by simp
next
  case (Cons p rest)
  obtain name func where p: "p = (name, func)" by (cases p)
  let ?enc = "map_of g (str_replace ''use_'' [] name)"
  from Cons.prems(2) have only: "\<forall>n'. (n', k) \<in> set rest \<longrightarrow> n' = n" by simp
  show ?case
  proof (cases "startswith name ''use_'' \<and>
                (\<exists>e. ?enc = Some e \<and> is_truthy e \<and> is_callable e)")
    case False
    with Cons.prems(1) have run: "get_typemap_loop g rest m0 = Inr m"
      by (auto simp: p split: option.splits if_splits)
    have "(name, func) \<noteq> (n, k)"
      using False assms(3,4,5,6) by auto
    with Cons.prems(3) have "(n, k) \<in> set rest \<or> map_of m0 k = Some v" by (auto simp: p)
    from Cons.IH [OF run only this] show ?thesis .
  next
    case True
    then obtain e where e: "?enc = Some e" and te: "is_truthy e" and ce: "is_callable e"
      and sw: "startswith name ''use_''"
      by blast
    with Cons.prems(1) have run: "get_typemap_loop g rest (AList.update func e m0) = Inr m"
      by (auto simp: p split: if_splits)
    have "(n, k) \<in> set rest \<or> map_of (AList.update func e m0) k = Some v"
    proof (cases "func = k")
      case True
      with Cons.prems(2) have "name = n" by (simp add: p)
      with e assms(4) have "e = v" by simp
      with True show ?thesis by (simp add: update_conv')
    next
      case False
      with Cons.prems(3) show ?thesis by (auto simp: p update_conv')
    qed
    from Cons.IH [OF run only this] show ?thesis .
  qed
qed

section \<open>The claims\<close>

subsection \<open>C1: the fallback conversion\<close>

text \<open>
  C1, as the code has it. When no class of the resolution order of \<open>x\<close> has a registered
  converter and every recognizer of the map returns a false value, \<open>serialize\<close> called
  with \<^verbatim>\<open>_raise=False\<close> returns the fallback conversion and does not raise, provided
  that what \<^verbatim>\<open>str\<close> and \<^verbatim>\<open>repr\<close> raise on \<open>x\<close>, if they raise, derives from
  \<^verbatim>\<open>Exception\<close>: the result is \<^verbatim>\<open>str(x)\<close>, else \<^verbatim>\<open>repr(x)\<close>, else the string
  \<^verbatim>\<open>__failed_to_encode__\<close>.
\<close>

theorem C1_fallback_when_unmatched:
  assumes "find_impl (mro x) reg = Some Generic"
    and "\<forall>(k, v) \<in> set tm. \<exists>b. body k x = Inr b \<and> \<not> truthy b"
    and "\<forall>e. py_str x = Inl e \<longrightarrow> is_Exception e"
    and "\<forall>e. py_repr x = Inl e \<longrightarrow> is_Exception e"
  shows "serialize reg tm x False =
     Inr (RStr (case py_str x of Inr s \<Rightarrow> s
                | Inl _ \<Rightarrow> (case py_repr x of Inr r \<Rightarrow> r | Inl _ \<Rightarrow> ''__failed_to_encode__'')))"
  using assms(1) scan_typemap_None [OF assms(2)] unknown_default_total [OF assms(3,4)]
  by (simp add: serialize_def serialize_generic_def)

text \<open>
  The theorem of C1 at the package's own registry and map, on an object of an unhandled
  class whose \<^verbatim>\<open>str\<close> and \<^verbatim>\<open>repr\<close> both raise: the sentinel is returned.
\<close>

theorem C1_fallback_witness:
  "find_impl (mro broken) module_registry = Some Generic \<and>
   list_all (\<lambda>(k, v). \<exists>b. body k broken = Inr b \<and> \<not> truthy b) TYPEMAP \<and>
   py_str broken = Inl (OtherException ''RuntimeError'') \<and>
   py_repr broken = Inl (OtherException ''RuntimeError'') \<and>
   serialize module_registry TYPEMAP broken False = Inr (RStr ''__failed_to_encode__'')"
proof -
  have f: "find_impl (mro broken) module_registry = Some Generic"
    by (simp add: broken_def registry_misses registry_lookup_all)
  have s: "py_str broken = Inl (OtherException ''RuntimeError'')"
    and r: "py_repr broken = Inl (OtherException ''RuntimeError'')"
    by (simp_all add: py_str_def py_repr_def broken_def)
  from C1_fallback_when_unmatched [OF f broken_unrecognized] s r f broken_unrecognized
  show ?thesis by (simp add: list_all_iff)
qed

text \<open>
  C1 as stated fails: \<open>serialize\<close> with \<^verbatim>\<open>_raise=False\<close> raises on an instance of a
  subclass of \<^verbatim>\<open>UserString\<close> whose \<^verbatim>\<open>__str__\<close> raises (the registered converter
  calls \<^verbatim>\<open>str\<close> and nothing catches its failure), and on an unhandled object whose
  \<^verbatim>\<open>__str__\<close> raises \<^verbatim>\<open>SystemExit\<close> (\<^verbatim>\<open>except Exception\<close> lets it through).
\<close>

theorem C1_serialize_can_raise:
  "module_serialize bad_userstring False = Inl (OtherException ''RuntimeError'') \<and>
   module_serialize stopper False = Inl (NonException ''SystemExit'')"
proof -
  have a: "module_serialize bad_userstring False = Inl (OtherException ''RuntimeError'')"
    by (simp add: module_serialize_eq serialize_def bad_userstring_def registry_misses
        registry_lookup_all userstring_default_def py_def_def py_str_def)
  have f: "find_impl (mro stopper) module_registry = Some Generic"
    by (simp add: stopper_def stopper_miss registry_lookup_all)
  have u: "unknown_default stopper = Inl (NonException ''SystemExit'')"
    by (simp add: unknown_default_def py_str_def stopper_def)
  have b: "module_serialize stopper False = Inl (NonException ''SystemExit'')"
    using scan_typemap_None [OF stopper_unrecognized] f u
    by (simp add: module_serialize_eq serialize_def serialize_generic_def)
  from a b show ?thesis by simp
qed

subsection \<open>C2: the error for an unhandled value\<close>




subsection \<open>C3: dispatch on the registered class\<close>

text \<open>
  C3. If the class \<open>T\<close> is registered with the converter \<open>C\<close>, and \<open>T\<close> is in the
  resolution order of \<open>x\<close> with no registered class before it (\<open>x\<close> is an instance of
  \<open>T\<close> or of a subclass without a more specific registration), then \<open>serialize\<close>
  returns exactly what \<open>C\<close> returns on \<open>x\<close>.
\<close>

theorem C3_direct_table_dispatch:
  assumes "map_of reg T = Some (Registered C)"
    and "mro x = pre @ T # post"
    and "\<forall>t \<in> set pre. map_of reg t = None"
  shows "serialize reg tm x raise = body C x"
  using find_impl_first [OF assms(1,3), of post] assms(2) by (simp add: serialize_def)

text \<open>
  The theorem of C3 on an instance of a subclass of \<^verbatim>\<open>Decimal\<close>: the converter
  registered for \<^verbatim>\<open>Decimal\<close> is applied.
\<close>

theorem C3_direct_table_dispatch_witness:
  "map_of module_registry ''Decimal'' = Some (Registered decimal_default) \<and>
   mro money = [''Money''] @ ''Decimal'' # [''object''] \<and>
   map_of module_registry ''Money'' = None \<and>
   serialize module_registry TYPEMAP money True = body decimal_default money \<and>
   body decimal_default money = Inr (RInt 12)"
proof -
  have a: "map_of module_registry ''Decimal'' = Some (Registered decimal_default)"
    by (simp only: registry_lookup_all)
  have b: "mro money = [''Money''] @ ''Decimal'' # [''object'']"
    by (simp add: money_def)
  have c: "\<forall>t \<in> set [''Money'']. map_of module_registry t = None"
    by (simp add: registry_misses)
  have d: "body decimal_default money = Inr (RInt 12)"
    by (simp add: decimal_default_def py_def_def money_def int_of_decimal_def digits_value_def)
  from C3_direct_table_dispatch [OF a b c, of TYPEMAP True] a b c d show ?thesis by simp
qed

subsection \<open>C4: the first matching recognizer wins\<close>

text \<open>
  C4. When no class of the resolution order of \<open>x\<close> has a registered converter, the
  generic implementation scans the map in its order: if the recognizers before \<open>k\<close>
  return a false value on \<open>x\<close> and \<open>k\<close> returns a true one, the result is what the
  converter paired with \<open>k\<close> returns, whatever the entries after it are: they are
  not called.
\<close>

theorem C4_first_matching_recognizer_wins:
  assumes "find_impl (mro x) reg = Some Generic"
    and "tm = pre @ (k, v) # post"
    and "\<forall>(k', v') \<in> set pre. \<exists>b. body k' x = Inr b \<and> \<not> truthy b"
    and "body k x = Inr b"
    and "truthy b"
  shows "serialize reg tm x raise = body v x"
  using assms(1) scan_typemap_first [OF assms(3,4,5), of v post] assms(2)
  by (simp add: serialize_def serialize_generic_def)

text \<open>
  The theorem of C4 at the package's own registry and map, on a value that two
  recognizers match: \<^verbatim>\<open>use_set_default\<close>, the fourth entry, and
  \<^verbatim>\<open>use_dataclass_default\<close>, a later one, whose converter would raise.
\<close>

theorem C4_first_matching_recognizer_wins_witness:
  "find_impl (mro tagged_frozenset) module_registry = Some Generic \<and>
   TYPEMAP = take 3 TYPEMAP @ (use_set_default, set_default) # drop 4 TYPEMAP \<and>
   list_all (\<lambda>(k', v'). \<exists>b. body k' tagged_frozenset = Inr b \<and> \<not> truthy b)
     (take 3 TYPEMAP) \<and>
   body use_set_default tagged_frozenset = Inr (RBool True) \<and>
   (use_dataclass_default, dataclass_default) \<in> set (drop 4 TYPEMAP) \<and>
   body use_dataclass_default tagged_frozenset = Inr (RBool True) \<and>
   body dataclass_default tagged_frozenset = Inl TypeError \<and>
   serialize module_registry TYPEMAP tagged_frozenset True =
     Inr (RList [RObj (py_int 1), RObj (py_int 2)])"
proof -
  have a: "find_impl (mro tagged_frozenset) module_registry = Some Generic"
    by (simp add: tagged_frozenset_def registry_misses registry_lookup_all)
  have b: "TYPEMAP = take 3 TYPEMAP @ (use_set_default, set_default) # drop 4 TYPEMAP"
    unfolding TYPEMAP_eq by simp
  have c: "\<forall>(k', v') \<in> set (take 3 TYPEMAP). \<exists>b. body k' tagged_frozenset = Inr b \<and> \<not> truthy b"
    unfolding TYPEMAP_eq
    by (simp add: use_type_default_def use_builtin_default_def use_namedtuple_default_def
        py_def_def isinstance_def tagged_frozenset_def)
  have d: "body use_set_default tagged_frozenset = Inr (RBool True)"
    by (simp add: use_set_default_def py_def_def isinstance_def tagged_frozenset_def)
  have e: "truthy (RBool True)" by simp
  have f: "(use_dataclass_default, dataclass_default) \<in> set (drop 4 TYPEMAP)"
    unfolding TYPEMAP_eq by simp
  have g: "body use_dataclass_default tagged_frozenset = Inr (RBool True)"
    by (simp add: use_dataclass_default_def py_def_def isinstance_def hasattr_def
        tagged_frozenset_def)
  have h: "body dataclass_default tagged_frozenset = Inl TypeError"
    by (simp add: dataclass_default_def py_def_def asdict_def tagged_frozenset_def)
  have i: "body set_default tagged_frozenset = Inr (RList [RObj (py_int 1), RObj (py_int 2)])"
    by (simp add: set_default_def py_def_def py_list_def py_iter_def tagged_frozenset_def)
  from C4_first_matching_recognizer_wins [OF a b c d e, of True] a b c d f g h i
  show ?thesis by (simp add: list_all_iff)
qed

subsection \<open>C5: validation before registration\<close>



subsection \<open>C6: exceptions\<close>

text \<open>
  C6 at a failing input: an exception of the class \<^verbatim>\<open>AppError\<close> of the module
  \<^verbatim>\<open>app.errors\<close> that was never raised. Its attribute \<^verbatim>\<open>__traceback__\<close> exists and is
  \<^verbatim>\<open>None\<close>, so that \<^verbatim>\<open>exception_default\<close> takes the branch of
  \<^verbatim>\<open>format_exception\<close> and returns the line with the qualified name of the class, not
  the string made of the name of the class, a colon and the message. Likewise
  \<^verbatim>\<open>ValueError()\<close>, whose message is empty, gives the name of the class without a colon.
\<close>

theorem C6_exception_without_traceback:
  "hasattr app_error ''__traceback__'' \<and>
   getattr app_error ''__traceback__'' = Inr py_none \<and>
   class_name app_error = ''AppError'' \<and>
   py_str app_error = Inr ''boom'' \<and>
   module_serialize app_error True = Inr (RStr ''app.errors.AppError: boom'') \<and>
   hasattr value_error_empty ''__traceback__'' \<and>
   getattr value_error_empty ''__traceback__'' = Inr py_none \<and>
   class_name value_error_empty = ''ValueError'' \<and>
   py_str value_error_empty = Inr [] \<and>
   module_serialize value_error_empty True = Inr (RStr ''ValueError'')"
  by (simp add: module_serialize_eq serialize_def app_error_def value_error_empty_def
      registry_misses
      registry_lookup_all exception_default_def py_def_def hasattr_def getattr_def
      format_exception_def format_tb_def exc_module_def class_name_def py_str_def py_none_def
      py_strip_def is_space_def)

subsection \<open>C7: decimals\<close>

text \<open>
  C7. For a \<^verbatim>\<open>Decimal\<close> with an integer exponent \<open>e\<close>, \<open>serialize\<close> returns an
  integer (the number itself) when \<open>e\<close> is at least zero and a floating-point number when
  \<open>e\<close> is negative.
\<close>

theorem C7_decimal_int_or_float:
  assumes "mro x = ''Decimal'' # rest"
    and "payload x = DecimalData sign digits (ExpInt e)"
  shows "module_serialize x raise =
     (if 0 \<le> e then Inr (RInt ((if sign then - 1 else 1) * digits_value digits * 10 ^ nat e))
      else Inr (RFloat (FloatOfDecimal sign digits e)))"
proof -
  have "find_impl (mro x) module_registry = Some (Registered decimal_default)"
    unfolding assms(1) find_impl.simps by (simp only: registry_lookup_all option.case)
  then show ?thesis
    using assms(2)
    by (simp add: module_serialize_eq serialize_def decimal_default_def py_def_def
        int_of_decimal_def float_of_decimal_def)
qed

text \<open>
  The theorem of C7 on \<^verbatim>\<open>Decimal('12E+1')\<close> and on \<^verbatim>\<open>Decimal('1.5')\<close>.
\<close>

theorem C7_decimal_int_or_float_witness:
  "mro decimal_120 = ''Decimal'' # [''object''] \<and>
   payload decimal_120 = DecimalData False [1, 2] (ExpInt 1) \<and>
   module_serialize decimal_120 True = Inr (RInt 120) \<and>
   mro decimal_1_5 = ''Decimal'' # [''object''] \<and>
   payload decimal_1_5 = DecimalData False [1, 5] (ExpInt (- 1)) \<and>
   module_serialize decimal_1_5 True = Inr (RFloat (FloatOfDecimal False [1, 5] (- 1)))"
proof -
  have a: "mro decimal_120 = ''Decimal'' # [''object'']"
    and b: "payload decimal_120 = DecimalData False [1, 2] (ExpInt 1)"
    and c: "mro decimal_1_5 = ''Decimal'' # [''object'']"
    and d: "payload decimal_1_5 = DecimalData False [1, 5] (ExpInt (- 1))"
    by (simp_all add: decimal_120_def decimal_1_5_def)
  from C7_decimal_int_or_float [OF a b, of True] C7_decimal_int_or_float [OF c d, of True] a b c d
  show ?thesis by (simp add: digits_value_def)
qed

subsection \<open>C8: containers\<close>

text \<open>
  C8. For a \<^verbatim>\<open>set\<close>, a \<^verbatim>\<open>deque\<close>, a \<^verbatim>\<open>UserList\<close> (or an instance of a subclass
  dispatched on these classes) and for a \<^verbatim>\<open>frozenset\<close>, \<open>serialize\<close> returns a list
  of the elements of the container themselves, as many and in the order of iteration;
  no element is converted.
\<close>

theorem C8_containers_keep_elements:
  assumes "(\<exists>c rest. mro x = c # rest \<and> (c = ''set'' \<or> c = ''deque'' \<or> c = ''UserList'')) \<or>
           mro x = [''frozenset'', ''object'']"
    and "payload x = Items xs"
  shows "module_serialize x raise = Inr (RList (map RObj xs))"
proof -
  have conv: "body set_default x = Inr (RList (map RObj xs))"
    "body deque_default x = Inr (RList (map RObj xs))"
    "body userlist_default x = Inr (RList (map RObj xs))"
    using assms(2)
    by (simp_all add: set_default_def deque_default_def userlist_default_def py_def_def
        py_list_def py_iter_def)
  from assms(1) show ?thesis
  proof (elim disjE exE conjE)
    fix c rest assume m: "mro x = c # rest" and c: "c = ''set''"
    have "find_impl (mro x) module_registry = Some (Registered set_default)"
      unfolding m c find_impl.simps by (simp only: registry_lookup_all option.case)
    then show ?thesis by (simp add: module_serialize_eq serialize_def conv)
  next
    fix c rest assume m: "mro x = c # rest" and c: "c = ''deque''"
    have "find_impl (mro x) module_registry = Some (Registered deque_default)"
      unfolding m c find_impl.simps by (simp only: registry_lookup_all option.case)
    then show ?thesis by (simp add: module_serialize_eq serialize_def conv)
  next
    fix c rest assume m: "mro x = c # rest" and c: "c = ''UserList''"
    have "find_impl (mro x) module_registry = Some (Registered userlist_default)"
      unfolding m c find_impl.simps by (simp only: registry_lookup_all option.case)
    then show ?thesis by (simp add: module_serialize_eq serialize_def conv)
  next
    assume m: "mro x = [''frozenset'', ''object'']"
    have "find_impl (mro x) module_registry = Some Generic"
      unfolding m find_impl.simps by (simp only: registry_lookup_all registry_misses option.case)
    then show ?thesis
      by (simp add: module_serialize_eq serialize_def serialize_generic_def frozenset_scan [OF m] conv)
  qed
qed

text \<open>
  The theorem of C8 on a set of three integers.
\<close>

theorem C8_containers_keep_elements_witness:
  "mro three_ints = ''set'' # [''object''] \<and>
   payload three_ints = Items [py_int 1, py_int 2, py_int 3] \<and>
   module_serialize three_ints True = Inr (RList [RObj (py_int 1), RObj (py_int 2), RObj (py_int 3)])"
proof -
  have a: "(\<exists>c rest. mro three_ints = c # rest \<and> (c = ''set'' \<or> c = ''deque'' \<or> c = ''UserList'')) \<or>
           mro three_ints = [''frozenset'', ''object'']"
    by (simp add: three_ints_def)
  have b: "payload three_ints = Items [py_int 1, py_int 2, py_int 3]"
    by (simp add: three_ints_def)
  from C8_containers_keep_elements [OF a b, of True] b show ?thesis
    by (simp add: three_ints_def)
qed

subsection \<open>C9: the value None\<close>

text \<open>
  C9. Every recognizer of the map returns \<^verbatim>\<open>False\<close> on \<^verbatim>\<open>None\<close>, and
  \<^verbatim>\<open>NoneType\<close> has no registered converter: \<open>serialize\<close> of \<^verbatim>\<open>None\<close> fails with
  \<^verbatim>\<open>NotImplementedError\<close> when \<^verbatim>\<open>_raise\<close> is true and returns the string
  \<^verbatim>\<open>None\<close> when it is false.
\<close>

theorem C9_none_is_unsupported:
  "list_all (\<lambda>(k, v). body k py_none = Inr (RBool False)) TYPEMAP \<and>
   find_impl (mro py_none) module_registry = Some Generic \<and>
   module_serialize py_none True = Inl (NotImplementedError []) \<and>
   module_serialize py_none False = Inr (RStr ''None'')"
proof -
  have u: "list_all (\<lambda>(k, v). body k py_none = Inr (RBool False)) TYPEMAP"
    by (rule unrecognized)
       (simp_all add: py_none_def recognized_classes_def hasattr_def is_class_def)
  then have "\<forall>(k, v) \<in> set TYPEMAP. \<exists>b. body k py_none = Inr b \<and> \<not> truthy b"
    by (auto simp: list_all_iff)
  then have s: "scan_typemap TYPEMAP py_none = None" by (rule scan_typemap_None)
  have f: "find_impl (mro py_none) module_registry = Some Generic"
    by (simp add: py_none_def registry_misses registry_lookup_all)
  have d: "unknown_default py_none = Inr ''None''"
    by (simp add: unknown_default_def py_str_def py_none_def)
  from u s f d show ?thesis
    by (simp add: module_serialize_eq serialize_def serialize_generic_def)
qed

subsection \<open>C10: the naming convention of the map\<close>

text \<open>
  C10. The map that \<^verbatim>\<open>_get_typemap\<close> builds from the namespace of the module has
  exactly the 44 pairs below, all pairs of functions, and the name of every recognizer is
  \<^verbatim>\<open>use_\<close> followed by the name of its converter. For any namespace: a key occurs once
  in the map; every entry pairs an object bound to a name that starts with \<^verbatim>\<open>use_\<close>
  with the true and callable object bound to that name without \<^verbatim>\<open>use_\<close>, so that a
  recognizer without such a converter is left out; and a recognizer that has one, under
  its only name, is in the map with it.
\<close>

theorem C10_typemap_naming_convention:
  "get_typemap module_globals = Inr (map (\<lambda>(k, v). (GFunc k, GFunc v)) TYPEMAP) \<and>
   TYPEMAP =
    [(use_type_default, type_default), (use_builtin_default, builtin_default),
     (use_namedtuple_default, namedtuple_default), (use_set_default, set_default),
     (use_bytes_default, bytes_default), (use_datetime_time_default, datetime_time_default),
     (use_datetime_date_default, datetime_date_default),
     (use_datetime_datetime_default, datetime_datetime_default),
     (use_datetime_timedelta_default, datetime_timedelta_default),
     (use_datetime_timezone_default, datetime_timezone_default),
     (use_enum_default, enum_default), (use_enum_meta_default, enum_meta_default),
     (use_enum_type_default, enum_type_default), (use_int_enum_default, int_enum_default),
     (use_flag_default, flag_default), (use_int_flag_default, int_flag_default),
     (use_complex_default, complex_default), (use_deque_default, deque_default),
     (use_exception_default, exception_default), (use_traceback_default, traceback_default),
     (use_userstring_default, userstring_default), (use_userlist_default, userlist_default),
     (use_chainmap_default, chainmap_default), (use_counter_default, counter_default),
     (use_defaultdict_default, defaultdict_default),
     (use_ordereddict_default, ordereddict_default),
     (use_dataclass_default, dataclass_default), (use_decimal_default, decimal_default),
     (use_context_default, context_default),
     (use_decimal_tuple_default, decimal_tuple_default),
     (use_ipv6address_default, ipv6address_default),
     (use_ipv6interface_default, ipv6interface_default),
     (use_ipv6network_default, ipv6network_default),
     (use_ipv4address_default, ipv4address_default),
     (use_ipv4interface_default, ipv4interface_default),
     (use_ipv4network_default, ipv4network_default), (use_purepath_default, purepath_default),
     (use_path_default, path_default), (use_posixpath_default, posixpath_default),
     (use_windowspath_default, windowspath_default), (use_pathlike_default, pathlike_default),
     (use_pattern_default, pattern_default), (use_match_default, match_default),
     (use_uuid_default, uuid_default)] \<and>
   (\<forall>(k, v) \<in> set TYPEMAP. fn_name k = ''use_'' @ fn_name v) \<and>
   (\<forall>g m. get_typemap g = Inr m \<longrightarrow> distinct (map fst m)) \<and>
   (\<forall>g m k v. get_typemap g = Inr m \<longrightarrow> (k, v) \<in> set m \<longrightarrow>
      (\<exists>n. (n, k) \<in> set g \<and> startswith n ''use_'' \<and>
           map_of g (str_replace ''use_'' [] n) = Some v \<and> is_truthy v \<and> is_callable v)) \<and>
   (\<forall>g m n k v. get_typemap g = Inr m \<longrightarrow> (n, k) \<in> set g \<longrightarrow> startswith n ''use_'' \<longrightarrow>
      map_of g (str_replace ''use_'' [] n) = Some v \<longrightarrow> is_truthy v \<longrightarrow> is_callable v \<longrightarrow>
      (\<forall>n'. (n', k) \<in> set g \<longrightarrow> n' = n) \<longrightarrow> (k, v) \<in> set m)"
proof (intro conjI allI impI)
  show "get_typemap module_globals = Inr (map (\<lambda>(k, v). (GFunc k, GFunc v)) TYPEMAP)"
    by (rule TYPEMAP_exact)
next
  show "TYPEMAP =
    [(use_type_default, type_default), (use_builtin_default, builtin_default),
     (use_namedtuple_default, namedtuple_default), (use_set_default, set_default),
     (use_bytes_default, bytes_default), (use_datetime_time_default, datetime_time_default),
     (use_datetime_date_default, datetime_date_default),
     (use_datetime_datetime_default, datetime_datetime_default),
     (use_datetime_timedelta_default, datetime_timedelta_default),
     (use_datetime_timezone_default, datetime_timezone_default),
     (use_enum_default, enum_default), (use_enum_meta_default, enum_meta_default),
     (use_enum_type_default, enum_type_default), (use_int_enum_default, int_enum_default),
     (use_flag_default, flag_default), (use_int_flag_default, int_flag_default),
     (use_complex_default, complex_default), (use_deque_default, deque_default),
     (use_exception_default, exception_default), (use_traceback_default, traceback_default),
     (use_userstring_default, userstring_default), (use_userlist_default, userlist_default),
     (use_chainmap_default, chainmap_default), (use_counter_default, counter_default),
     (use_defaultdict_default, defaultdict_default),
     (use_ordereddict_default, ordereddict_default),
     (use_dataclass_default, dataclass_default), (use_decimal_default, decimal_default),
     (use_context_default, context_default),
     (use_decimal_tuple_default, decimal_tuple_default),
     (use_ipv6address_default, ipv6address_default),
     (use_ipv6interface_default, ipv6interface_default),
     (use_ipv6network_default, ipv6network_default),
     (use_ipv4address_default, ipv4address_default),
     (use_ipv4interface_default, ipv4interface_default),
     (use_ipv4network_default, ipv4network_default), (use_purepath_default, purepath_default),
     (use_path_default, path_default), (use_posixpath_default, posixpath_default),
     (use_windowspath_default, windowspath_default), (use_pathlike_default, pathlike_default),
     (use_pattern_default, pattern_default), (use_match_default, match_default),
     (use_uuid_default, uuid_default)]"
    by (rule TYPEMAP_eq)
next
  show "\<forall>(k, v) \<in> set TYPEMAP. fn_name k = ''use_'' @ fn_name v"
    unfolding TYPEMAP_eq by (simp add: fn_names)
next
  fix g m assume "get_typemap g = Inr m"
  then have "get_typemap_loop g g [] = Inr m" by (simp only: get_typemap_def)
  from get_typemap_loop_distinct [OF this] show "distinct (map fst m)" by simp
next
  fix g m k v assume gm: "get_typemap g = Inr m" and kv: "(k, v) \<in> set m"
  from gm have "get_typemap_loop g g [] = Inr m" by (simp only: get_typemap_def)
  from get_typemap_loop_entries [OF this kv]
  show "\<exists>n. (n, k) \<in> set g \<and> startswith n ''use_'' \<and>
           map_of g (str_replace ''use_'' [] n) = Some v \<and> is_truthy v \<and> is_callable v"
    by simp
next
  fix g m n k v
  assume gm: "get_typemap g = Inr m" and nk: "(n, k) \<in> set g" and sw: "startswith n ''use_''"
    and enc: "map_of g (str_replace ''use_'' [] n) = Some v"
    and t: "is_truthy v" and c: "is_callable v"
    and only: "\<forall>n'. (n', k) \<in> set g \<longrightarrow> n' = n"
  from gm have run: "get_typemap_loop g g [] = Inr m" by (simp only: get_typemap_def)
  from nk have "(n, k) \<in> set g \<or> map_of [] k = Some v" by simp
  from get_typemap_loop_value [OF run only sw enc t c this]
  show "(k, v) \<in> set m" by (rule map_of_SomeD)
qed

text \<open>
  The theorem of C10 on the entry of \<^verbatim>\<open>use_set_default\<close>; on a namespace that binds a
  recognizer and no converter, where the map is empty; on a namespace that binds both,
  where the pair is in the map; and on a namespace that binds a class under the name of
  the converter, which is kept.
\<close>

theorem C10_typemap_naming_convention_witness:
  "(use_set_default, set_default) \<in> set TYPEMAP \<and>
   fn_name use_set_default = ''use_'' @ fn_name set_default \<and>
   get_typemap [(''use_widget_default'', GFunc use_widget_default)] = Inr [] \<and>
   get_typemap [(''use_widget_default'', GFunc use_widget_default),
                (''widget_default'', GFunc widget_default)] =
     Inr [(GFunc use_widget_default, GFunc widget_default)] \<and>
   (GFunc use_widget_default, GFunc widget_default) \<in>
     set [(GFunc use_widget_default, GFunc widget_default)] \<and>
   get_typemap [(''use_widget_default'', GFunc use_widget_default),
                (''widget_default'', py_callable 7)] =
     Inr [(GFunc use_widget_default, py_callable 7)]"
proof -
  let ?g1 = "[(''use_widget_default'', GFunc use_widget_default)]"
  let ?g2 = "[(''use_widget_default'', GFunc use_widget_default),
              (''widget_default'', GFunc widget_default)]"
  have a: "(use_set_default, set_default) \<in> set TYPEMAP"
    unfolding TYPEMAP_eq by simp
  from C10_typemap_naming_convention a
  have b: "fn_name use_set_default = ''use_'' @ fn_name set_default" by fastforce
  have c: "get_typemap ?g1 = Inr []"
    by (simp add: get_typemap_def startswith_def)
  have d: "get_typemap ?g2 = Inr [(GFunc use_widget_default, GFunc widget_default)]"
    by (simp add: get_typemap_def startswith_def)
  have sw: "startswith ''use_widget_default'' ''use_''" by (simp add: startswith_def)
  have enc: "map_of ?g2 (str_replace ''use_'' [] ''use_widget_default'') =
             Some (GFunc widget_default)"
    by simp
  have only: "\<forall>n'. (n', GFunc use_widget_default) \<in> set ?g2 \<longrightarrow> n' = ''use_widget_default''"
    by (auto simp: use_widget_default_def widget_default_def py_def_def)
  from C10_typemap_naming_convention d sw enc only
  have e: "(GFunc use_widget_default, GFunc widget_default) \<in>
           set [(GFunc use_widget_default, GFunc widget_default)]"
    by simp
  have f: "get_typemap [(''use_widget_default'', GFunc use_widget_default),
                (''widget_default'', py_callable 7)] =
     Inr [(GFunc use_widget_default, py_callable 7)]"
    by (simp add: get_typemap_def startswith_def py_callable_def)
  from a b c d e f show ?thesis by simp
qed

end
